theory Spec2Isabelle
  imports Main
begin

section \<open>Errors and the control flow of the source\<close>

text \<open>
  The SDK is TypeScript. A function of the source either returns or throws, and it
  mutates the object it belongs to and the browser around it. In the model a
  computation takes the state and gives back the outcome (\<open>Inl\<close> a thrown value,
  \<open>Inr\<close> a returned one) with the state it leaves behind. An \<open>await\<close> is
  sequential composition: an operation of the SDK runs to its end on the response the
  backend gives.
\<close>

datatype api_error = HttpError nat | NetworkError

datatype exn = TypeError | HandlerThrew | ApiFailure api_error | SecurityError

type_synonym ('s, 'a) js = "'s \<Rightarrow> (exn + 'a) \<times> 's"

definition js_return :: "'a \<Rightarrow> ('s, 'a) js" where
  "js_return a = (\<lambda>s. (Inr a, s))"

definition js_bind :: "('s, 'a) js \<Rightarrow> ('a \<Rightarrow> ('s, 'b) js) \<Rightarrow> ('s, 'b) js" where
  "js_bind m f = (\<lambda>s. case m s of (Inl e, s') \<Rightarrow> (Inl e, s') | (Inr a, s') \<Rightarrow> f a s')"

definition js_seq :: "('s, 'a) js \<Rightarrow> ('s, 'b) js \<Rightarrow> ('s, 'b) js" where
  "js_seq m n = js_bind m (\<lambda>_. n)"

text \<open>\<open>try { m } catch (err) { h err }\<close>\<close>

definition try_catch :: "('s, 'a) js \<Rightarrow> (exn \<Rightarrow> ('s, 'a) js) \<Rightarrow> ('s, 'a) js" where
  "try_catch m h = (\<lambda>s. case m s of (Inl e, s') \<Rightarrow> h e s' | (Inr a, s') \<Rightarrow> (Inr a, s'))"

text \<open>
  \<open>try { m } finally { fin }\<close>: \<open>fin\<close> runs whatever \<open>m\<close> did; what
  \<open>fin\<close> throws replaces the outcome of \<open>m\<close>.
\<close>

definition try_finally :: "('s, 'a) js \<Rightarrow> ('s, unit) js \<Rightarrow> ('s, 'a) js" where
  "try_finally m fin =
     (\<lambda>s. case m s of (r, s') \<Rightarrow>
        (case fin s' of (Inl e, s'') \<Rightarrow> (Inl e, s'') | (Inr _, s'') \<Rightarrow> (r, s'')))"

text \<open>
  An asynchronous function that has been called runs to its end whatever the caller
  does next: \<open>started_before m k\<close> runs \<open>m\<close>, the rest of the caller, and then
  \<open>k\<close>, the part of the called function behind its first \<open>await\<close>, also when
  \<open>m\<close> throws.
\<close>

definition started_before :: "('s, unit) js \<Rightarrow> ('s, unit) js \<Rightarrow> ('s, unit) js" where
  "started_before m k =
     (\<lambda>s. case m s of (r, s') \<Rightarrow>
        (case k s' of (r', s'') \<Rightarrow> (case r of Inl e \<Rightarrow> Inl e | Inr _ \<Rightarrow> r', s'')))"

text \<open>
  The truthiness test of a \<open>string | null\<close>: \<open>if (v)\<close> holds when
  \<open>or_undefined v\<close> is \<open>Some\<close>, and \<open>v || undefined\<close> is \<open>or_undefined v\<close>.
  The empty string counts as absent.
\<close>

definition or_undefined :: "string option \<Rightarrow> string option" where
  "or_undefined v = (case v of None \<Rightarrow> None | Some s \<Rightarrow> if s = [] then None else Some s)"

section \<open>The event emitter (events.ts)\<close>

text \<open>
  \<open>events: { [key: string]: Function[] }\<close> is a map from event names to arrays of
  callbacks. A callback is known by its identity (\<open>'h\<close>, compared with \<open>\<noteq>\<close> as
  the source compares references with \<open>!==\<close>); what it does when called is given by
  \<open>throws cb args\<close>, which tells whether the call throws. Event names are own keys
  of the object; a callback does not reach back into the emitter while it runs.
\<close>

type_synonym 'h emitter = "string \<rightharpoonup> 'h list"

definition on :: "'h emitter \<Rightarrow> string \<Rightarrow> 'h \<Rightarrow> 'h emitter" where
  "on em event callback =
     (case em event of
        None \<Rightarrow> em(event \<mapsto> [callback])
      | Some cbs \<Rightarrow> em(event \<mapsto> cbs @ [callback]))"

text \<open>
  The closure \<open>on\<close> returns. It reads \<open>this.events[event]\<close> when it is called: after
  a \<open>clear\<close> the array is gone and \<open>.filter\<close> on \<open>undefined\<close> is a TypeError.
\<close>

definition unsubscribe :: "'h emitter \<Rightarrow> string \<Rightarrow> 'h \<Rightarrow> exn + 'h emitter" where
  "unsubscribe em event callback =
     (case em event of
        None \<Rightarrow> Inl TypeError
      | Some cbs \<Rightarrow> Inr (em(event \<mapsto> filter (\<lambda>cb. cb \<noteq> callback) cbs)))"

text \<open>
  \<open>Array.prototype.forEach\<close> with \<open>callback(...args)\<close> as its body: the callbacks
  are called in order, and the first one that throws ends the loop. The second
  component lists the calls that were made.
\<close>

fun forEach :: "('h \<Rightarrow> 'a list \<Rightarrow> bool) \<Rightarrow> 'h list \<Rightarrow> 'a list \<Rightarrow> (exn + unit) \<times> ('h \<times> 'a list) list" where
  "forEach throws [] args = (Inr (), [])"
| "forEach throws (cb # cbs) args =
     (if throws cb args then (Inl HandlerThrew, [(cb, args)])
      else (case forEach throws cbs args of (r, made) \<Rightarrow> (r, (cb, args) # made)))"

definition emit :: "('h \<Rightarrow> 'a list \<Rightarrow> bool) \<Rightarrow> 'h emitter \<Rightarrow> string \<Rightarrow> 'a list \<Rightarrow> (exn + unit) \<times> ('h \<times> 'a list) list" where
  "emit throws em event args =
     (case em event of
        None \<Rightarrow> (Inr (), [])
      | Some cbs \<Rightarrow> forEach throws cbs args)"

definition clear :: "'h emitter \<Rightarrow> string option \<Rightarrow> 'h emitter" where
  "clear em event =
     (case or_undefined event of
        Some e \<Rightarrow> em(e := None)
      | None \<Rightarrow> Map.empty)"

section \<open>The browser and the backend\<close>

record UserData =
  uid :: string
  email :: string
  display_name :: "string option"
  photo_url :: "string option"

datatype body = NoBody | LoginBody string | CallbackBody string "string option"

record request =
  endpoint :: string
  data :: body
  headers :: "string \<rightharpoonup> string"

text \<open>
  The backend is outside the SDK: it is the answer it gives to each request. An answer
  with a status outside 2xx, or no answer, makes axios reject (\<open>Inl\<close>).
\<close>

record backend =
  login_response :: "request \<Rightarrow> api_error + string"
  callback_response :: "request \<Rightarrow> api_error + string \<times> UserData"
  verify_response :: "request \<Rightarrow> api_error + UserData"
  logout_response :: "request \<Rightarrow> api_error + unit"

text \<open>
  What the SDK touches of the page: the entry of \<open>localStorage\<close> under
  \<open>StorageKeys.TOKEN\<close>, \<open>window.location\<close> (with the query string parsed, as
  \<open>URLSearchParams\<close> has it), the URL a navigation was started to by an assignment
  to \<open>window.location.href\<close>, and the requests sent so far.

  How the browser resolves a URL reference is not code of the SDK: \<open>resolve w ref\<close>
  is what the browser of the page makes of the reference \<open>ref\<close> given to
  \<open>history.replaceState\<close> when the page is at a pathname and query, either the
  pathname and query of the resolved URL or the exception it throws (a SecurityError
  when the resolved URL has another origin).
\<close>

type_synonym url_parts = "string \<times> (string \<times> string) list"

record world =
  localStorage :: "string option"
  origin :: string
  pathname :: string
  search :: "(string \<times> string) list"
  navigation :: "string option"
  requests :: "request list"
  server :: backend
  resolve :: "string \<Rightarrow> url_parts \<Rightarrow> exn + url_parts"

definition getItem :: "'a world_scheme \<Rightarrow> string option" where
  "getItem w = localStorage w"

definition setItem :: "string \<Rightarrow> ('a world_scheme, unit) js" where
  "setItem v = (\<lambda>w. (Inr (), w\<lparr>localStorage := Some v\<rparr>))"

definition removeItem :: "('a world_scheme, unit) js" where
  "removeItem = (\<lambda>w. (Inr (), w\<lparr>localStorage := None\<rparr>))"

text \<open>\<open>url.searchParams.get(name)\<close>: the first value of the name, or null.\<close>

definition searchParams_get :: "'a world_scheme \<Rightarrow> string \<Rightarrow> string option" where
  "searchParams_get w name = map_of (search w) name"

text \<open>
  \<open>window.history.replaceState({}, document.title, ref)\<close>: the browser resolves
  the reference against the URL of the page. The page stays and its URL becomes the
  resolved one, or the call throws and the URL stays.
\<close>

definition replaceState :: "string \<Rightarrow> ('a world_scheme, unit) js" where
  "replaceState ref =
     (\<lambda>w. case resolve w ref (pathname w, search w) of
        Inl e \<Rightarrow> (Inl e, w)
      | Inr (p, q) \<Rightarrow> (Inr (), w\<lparr>pathname := p, search := q\<rparr>))"

definition assign_href :: "string \<Rightarrow> ('a world_scheme, unit) js" where
  "assign_href target = (\<lambda>w. (Inr (), w\<lparr>navigation := Some target\<rparr>))"

section \<open>The API client (api-client.ts)\<close>

text \<open>The request interceptor installed by the constructor.\<close>

definition interceptor :: "string option \<Rightarrow> request \<Rightarrow> request" where
  "interceptor token config =
     (case or_undefined token of
        Some t \<Rightarrow> config\<lparr>headers := (headers config)(''Authorization'' \<mapsto> ''Bearer '' @ t)\<rparr>
      | None \<Rightarrow> config)"

text \<open>
  \<open>this.client.post(url, data, { headers })\<close>: the headers of the instance and of
  the call are merged, the interceptor reads the token store, and the request goes out.
\<close>

definition outgoing :: "'a world_scheme \<Rightarrow> string \<Rightarrow> body \<Rightarrow> (string \<rightharpoonup> string) \<Rightarrow> request" where
  "outgoing w url payload extra =
     interceptor (getItem w)
       \<lparr>endpoint = url, data = payload,
        headers = [''Content-Type'' \<mapsto> ''application/json''] ++ extra\<rparr>"

definition post :: "(backend \<Rightarrow> request \<Rightarrow> api_error + 'r) \<Rightarrow> string \<Rightarrow> body \<Rightarrow> (string \<rightharpoonup> string) \<Rightarrow> ('a world_scheme, 'r) js" where
  "post answer url payload extra =
     (\<lambda>w. let req = outgoing w url payload extra in
        (case answer (server w) req of Inl e \<Rightarrow> Inl (ApiFailure e) | Inr r \<Rightarrow> Inr r,
         w\<lparr>requests := requests w @ [req]\<rparr>))"

text \<open>
  Each method logs and rethrows what \<open>post\<close> throws, so it is \<open>post\<close> itself.
  \<open>redirectUri || window.location.origin\<close> is the body of the login request.
\<close>

definition ApiClient_login :: "string option \<Rightarrow> ('a world_scheme, string) js" where
  "ApiClient_login redirectUri =
     (\<lambda>w. post login_response ''/auth/login''
        (LoginBody (case or_undefined redirectUri of Some u \<Rightarrow> u | None \<Rightarrow> origin w)) Map.empty w)"

definition ApiClient_handleCallback :: "string \<Rightarrow> string option \<Rightarrow> ('a world_scheme, string \<times> UserData) js" where
  "ApiClient_handleCallback code state =
     post callback_response ''/auth/callback'' (CallbackBody code state) Map.empty"

definition ApiClient_logout :: "('a world_scheme, unit) js" where
  "ApiClient_logout = post logout_response ''/auth/logout'' NoBody Map.empty"

definition ApiClient_verifyToken :: "string \<Rightarrow> ('a world_scheme, UserData) js" where
  "ApiClient_verifyToken token =
     post verify_response ''/verify-token'' NoBody [''Authorization'' \<mapsto> ''Bearer '' @ token]"

definition ApiClient_getCurrentUser :: "('a world_scheme, UserData) js" where
  "ApiClient_getCurrentUser = post verify_response ''/verify-token'' NoBody Map.empty"

record ApiClientConfig =
  baseUrl :: string

record ApiClient =
  baseURL :: string

definition createApiClient :: "ApiClientConfig \<Rightarrow> ApiClient" where
  "createApiClient config = \<lparr>baseURL = baseUrl config\<rparr>"

section \<open>The authentication state\<close>

text \<open>
  Both adapters keep the same four pieces of state next to the page: the API client
  (null until it is created), \<open>user\<close>, \<open>isLoading\<close> and \<open>error\<close>.
\<close>

record auth = world +
  apiClient :: "ApiClient option"
  user :: "UserData option"
  isLoading :: bool
  error :: "string option"

record BackendConfig =
  authBackendUrl :: string

section \<open>The React provider (auth-context.tsx)\<close>

record AuthProviderProps = BackendConfig +
  loginRedirectPath :: "string option"
  unauthorizedRedirectPath :: "string option"

text \<open>The default values of the two props in the parameter list of the component.\<close>

definition login_path :: "AuthProviderProps \<Rightarrow> string" where
  "login_path props = (case loginRedirectPath props of None \<Rightarrow> ''/'' | Some p \<Rightarrow> p)"

definition unauthorized_path :: "AuthProviderProps \<Rightarrow> string" where
  "unauthorized_path props =
     (case unauthorizedRedirectPath props of None \<Rightarrow> ''/login'' | Some p \<Rightarrow> p)"

text \<open>The setters of \<open>useState\<close>.\<close>

definition setUser :: "UserData option \<Rightarrow> ('a auth_scheme, unit) js" where
  "setUser u = (\<lambda>s. (Inr (), s\<lparr>user := u\<rparr>))"

definition setIsLoading :: "bool \<Rightarrow> ('a auth_scheme, unit) js" where
  "setIsLoading b = (\<lambda>s. (Inr (), s\<lparr>isLoading := b\<rparr>))"

definition setError :: "string option \<Rightarrow> ('a auth_scheme, unit) js" where
  "setError e = (\<lambda>s. (Inr (), s\<lparr>error := e\<rparr>))"

definition setApiClient :: "ApiClient option \<Rightarrow> ('a auth_scheme, unit) js" where
  "setApiClient c = (\<lambda>s. (Inr (), s\<lparr>apiClient := c\<rparr>))"

text \<open>The first effect: it creates the API client.\<close>

definition AuthProvider_createEffect :: "AuthProviderProps \<Rightarrow> ('a auth_scheme, unit) js" where
  "AuthProvider_createEffect props =
     try_catch
       (setApiClient (Some (createApiClient \<lparr>baseUrl = authBackendUrl props\<rparr>)))
       (\<lambda>err. js_seq (setError (Some ''Failed to initialize authentication''))
                 (setIsLoading False))"

text \<open>
  The direct-token branch of the second effect. \<open>getUserData()\<close> is called without
  \<open>await\<close>: it returns at its own first \<open>await\<close>, before its request goes out.
  So the \<open>replaceState(loginRedirectPath)\<close> that follows the call in the source,
  and the handler around it, run first (\<open>AuthProvider_tokenBlock\<close>, the
  \<open>try\<close> block without the call), and the body of \<open>getUserData\<close> runs after
  them in any case.
\<close>

definition AuthProvider_getUserData :: "AuthProviderProps \<Rightarrow> ('a auth_scheme, unit) js" where
  "AuthProvider_getUserData props =
     try_finally
       (try_catch
          (js_bind ApiClient_getCurrentUser (\<lambda>userData. setUser (Some userData)))
          (\<lambda>err. js_seq (setError (Some ''Authentication failed. Please try again.''))
                   (js_seq removeItem
                      (replaceState (unauthorized_path props)))))
       (setIsLoading False)"

definition AuthProvider_tokenBlock :: "AuthProviderProps \<Rightarrow> string \<Rightarrow> ('a auth_scheme, unit) js" where
  "AuthProvider_tokenBlock props token =
     try_catch
       (js_seq (setItem token)
          (replaceState (login_path props)))
       (\<lambda>err. js_seq (setError (Some ''Authentication failed. Please try again.''))
                (js_seq removeItem
                   (js_seq (setIsLoading False)
                      (replaceState (unauthorized_path props)))))"

definition AuthProvider_directToken :: "AuthProviderProps \<Rightarrow> string \<Rightarrow> ('a auth_scheme, unit) js" where
  "AuthProvider_directToken props token =
     js_seq (setIsLoading True)
       (js_seq (setError None)
          (started_before
             (AuthProvider_tokenBlock props token)
             (AuthProvider_getUserData props)))"

definition AuthProvider_handleCallback :: "AuthProviderProps \<Rightarrow> string \<Rightarrow> string option \<Rightarrow> ('a auth_scheme, unit) js" where
  "AuthProvider_handleCallback props code state =
     js_seq (setIsLoading True)
       (js_seq (setError None)
          (try_finally
             (try_catch
                (js_bind (ApiClient_handleCallback code state)
                   (\<lambda>(token, user). js_seq (setItem token)
                      (js_seq (setUser (Some user))
                         (replaceState (login_path props)))))
                (\<lambda>err. js_seq (setError (Some ''Authentication failed. Please try again.''))
                         (js_seq removeItem
                            (replaceState (unauthorized_path props)))))
             (setIsLoading False)))"

definition AuthProvider_checkAuth :: "('a auth_scheme, unit) js" where
  "AuthProvider_checkAuth =
     (\<lambda>s. case or_undefined (getItem s) of
        None \<Rightarrow> setIsLoading False s
      | Some token \<Rightarrow>
          try_finally
            (try_catch
               (js_bind ApiClient_getCurrentUser (\<lambda>userData. setUser (Some userData)))
               (\<lambda>err. js_seq removeItem
                        (setError (Some ''Authentication failed. Please log in again.''))))
            (setIsLoading False) s)"

text \<open>The second effect: it does nothing until the API client is there.\<close>

definition AuthProvider_urlEffect :: "AuthProviderProps \<Rightarrow> ('a auth_scheme, unit) js" where
  "AuthProvider_urlEffect props =
     (\<lambda>s. if apiClient s = None then (Inr (), s)
        else (case or_undefined (searchParams_get s ''token'') of
            Some token \<Rightarrow> AuthProvider_directToken props token s
          | None \<Rightarrow>
              (case or_undefined (searchParams_get s ''code'') of
                 Some code \<Rightarrow>
                   AuthProvider_handleCallback props code
                     (or_undefined (searchParams_get s ''state'')) s
               | None \<Rightarrow> AuthProvider_checkAuth s)))"

text \<open>Mounting the provider runs the first effect, then the second.\<close>

definition AuthProvider_mount :: "AuthProviderProps \<Rightarrow> ('a auth_scheme, unit) js" where
  "AuthProvider_mount props =
     js_seq (AuthProvider_createEffect props) (AuthProvider_urlEffect props)"

definition AuthProvider_login :: "('a auth_scheme, unit) js" where
  "AuthProvider_login =
     (\<lambda>s. if apiClient s = None then setError (Some ''Authentication not initialized'') s
        else js_seq (setIsLoading True)
          (js_seq (setError None)
             (try_catch
                (js_bind (ApiClient_login (Some (origin s))) assign_href)
                (\<lambda>err. js_seq (setError (Some ''Login failed. Please try again.''))
                         (setIsLoading False)))) s)"

definition AuthProvider_logout :: "('a auth_scheme, unit) js" where
  "AuthProvider_logout =
     (\<lambda>s. if apiClient s = None then setError (Some ''Authentication not initialized'') s
        else js_seq (setIsLoading True)
          (js_seq (setError None)
             (try_finally
                (try_catch
                   (js_seq ApiClient_logout
                      (js_seq removeItem (setUser None)))
                   (\<lambda>err. setError (Some ''Logout failed. Please try again.'')))
                (setIsLoading False))) s)"

section \<open>The vanilla client (vanilla-auth.ts)\<close>

record VanillaAuthClientConfig = BackendConfig +
  redirectUri :: "string option"

text \<open>
  What the client hands to its listeners: \<open>UserData | null\<close> on
  \<open>authStateChanged\<close>, a boolean on \<open>loadingStateChanged\<close>, a string on
  \<open>error\<close>. A listener is a function object (a number stands for its identity);
  \<open>cb_throws\<close> tells of each call whether it throws, and \<open>invoked\<close> lists
  the calls made so far.
\<close>

datatype arg = UserArg "UserData option" | LoadingArg bool | ErrorArg string

type_synonym callback = nat

record vanilla = auth +
  events :: "callback emitter"
  invoked :: "(callback \<times> arg list) list"
  cb_throws :: "callback \<Rightarrow> arg list \<Rightarrow> bool"

definition call_back :: "callback \<Rightarrow> arg list \<Rightarrow> (vanilla, unit) js" where
  "call_back cb args =
     (\<lambda>s. (if cb_throws s cb args then Inl HandlerThrew else Inr (),
           s\<lparr>invoked := invoked s @ [(cb, args)]\<rparr>))"

definition events_emit :: "string \<Rightarrow> arg list \<Rightarrow> (vanilla, unit) js" where
  "events_emit event args =
     (\<lambda>s. case emit (cb_throws s) (events s) event args of
        (r, made) \<Rightarrow> (r, s\<lparr>invoked := invoked s @ made\<rparr>))"

definition events_on :: "string \<Rightarrow> callback \<Rightarrow> (vanilla, unit) js" where
  "events_on event cb = (\<lambda>s. (Inr (), s\<lparr>events := on (events s) event cb\<rparr>))"

definition events_unsubscribe :: "string \<Rightarrow> callback \<Rightarrow> (vanilla, unit) js" where
  "events_unsubscribe event cb =
     (\<lambda>s. case unsubscribe (events s) event cb of
        Inl e \<Rightarrow> (Inl e, s)
      | Inr em \<Rightarrow> (Inr (), s\<lparr>events := em\<rparr>))"

definition Vanilla_setUser :: "UserData option \<Rightarrow> (vanilla, unit) js" where
  "Vanilla_setUser u =
     js_seq (\<lambda>s. (Inr (), s\<lparr>user := u\<rparr>))
       (events_emit ''authStateChanged'' [UserArg u])"

definition Vanilla_setLoading :: "bool \<Rightarrow> (vanilla, unit) js" where
  "Vanilla_setLoading b =
     js_seq (\<lambda>s. (Inr (), s\<lparr>isLoading := b\<rparr>))
       (events_emit ''loadingStateChanged'' [LoadingArg b])"

definition Vanilla_setError :: "string option \<Rightarrow> (vanilla, unit) js" where
  "Vanilla_setError e =
     js_seq (\<lambda>s. (Inr (), s\<lparr>error := e\<rparr>))
       (case or_undefined e of
          Some msg \<Rightarrow> events_emit ''error'' [ErrorArg msg]
        | None \<Rightarrow> js_return ())"

definition Vanilla_handleDirectToken :: "string \<Rightarrow> (vanilla, unit) js" where
  "Vanilla_handleDirectToken token =
     (\<lambda>s. if apiClient s = None then Vanilla_setLoading False s
        else js_seq (Vanilla_setLoading True)
          (js_seq (Vanilla_setError None)
             (try_finally
                (try_catch
                   (js_seq (setItem token)
                      (js_bind ApiClient_getCurrentUser
                         (\<lambda>userData. js_seq (Vanilla_setUser (Some userData))
                            (\<lambda>s'. replaceState (pathname s') s'))))
                   (\<lambda>err. js_seq
                      (Vanilla_setError (Some ''Authentication failed. Please try again.''))
                      removeItem))
                (Vanilla_setLoading False))) s)"

definition Vanilla_handleCallback :: "string \<Rightarrow> string option \<Rightarrow> (vanilla, unit) js" where
  "Vanilla_handleCallback code state =
     (\<lambda>s. if apiClient s = None then Vanilla_setLoading False s
        else js_seq (Vanilla_setLoading True)
          (js_seq (Vanilla_setError None)
             (try_finally
                (try_catch
                   (js_bind (ApiClient_handleCallback code state)
                      (\<lambda>(token, user). js_seq (setItem token)
                         (js_seq (Vanilla_setUser (Some user))
                            (\<lambda>s'. replaceState (pathname s') s'))))
                   (\<lambda>err. js_seq
                      (Vanilla_setError (Some ''Authentication failed. Please try again.''))
                      removeItem))
                (Vanilla_setLoading False))) s)"

definition Vanilla_checkExistingAuth :: "(vanilla, unit) js" where
  "Vanilla_checkExistingAuth =
     (\<lambda>s. if apiClient s = None then Vanilla_setLoading False s
        else (case or_undefined (getItem s) of
            None \<Rightarrow> Vanilla_setLoading False s
          | Some token \<Rightarrow>
              try_finally
                (try_catch
                   (js_bind ApiClient_getCurrentUser
                      (\<lambda>userData. Vanilla_setUser (Some userData)))
                   (\<lambda>err. js_seq removeItem
                      (Vanilla_setError (Some ''Authentication failed. Please log in again.''))))
                (Vanilla_setLoading False) s))"

definition Vanilla_initialize :: "VanillaAuthClientConfig \<Rightarrow> (vanilla, unit) js" where
  "Vanilla_initialize config =
     try_catch
       (js_seq
          (\<lambda>s. (Inr (), s\<lparr>apiClient := Some (createApiClient \<lparr>baseUrl = authBackendUrl config\<rparr>)\<rparr>))
          (\<lambda>s. case or_undefined (searchParams_get s ''token'') of
             Some token \<Rightarrow> Vanilla_handleDirectToken token s
           | None \<Rightarrow>
               (case or_undefined (searchParams_get s ''code'') of
                  Some code \<Rightarrow>
                    Vanilla_handleCallback code (or_undefined (searchParams_get s ''state'')) s
                | None \<Rightarrow> Vanilla_checkExistingAuth s)))
       (\<lambda>err. js_seq (Vanilla_setError (Some ''Failed to initialize authentication''))
                 (Vanilla_setLoading False))"

definition Vanilla_onAuthStateChanged :: "callback \<Rightarrow> (vanilla, unit) js" where
  "Vanilla_onAuthStateChanged cb =
     (\<lambda>s. js_seq (call_back cb [UserArg (user s)]) (events_on ''authStateChanged'' cb) s)"

definition Vanilla_onError :: "callback \<Rightarrow> (vanilla, unit) js" where
  "Vanilla_onError cb = events_on ''error'' cb"

definition Vanilla_onLoadingStateChanged :: "callback \<Rightarrow> (vanilla, unit) js" where
  "Vanilla_onLoadingStateChanged cb =
     (\<lambda>s. js_seq (call_back cb [LoadingArg (isLoading s)])
        (events_on ''loadingStateChanged'' cb) s)"

definition getRedirectUri :: "vanilla \<Rightarrow> string" where
  "getRedirectUri s = origin s @ pathname s"

definition Vanilla_login :: "(vanilla, unit) js" where
  "Vanilla_login =
     (\<lambda>s. if apiClient s = None
        then Vanilla_setError (Some ''Authentication not initialized'') s
        else js_seq (Vanilla_setLoading True)
          (js_seq (Vanilla_setError None)
             (try_catch
                (js_bind (\<lambda>s'. ApiClient_login (Some (getRedirectUri s')) s') assign_href)
                (\<lambda>err. js_seq (Vanilla_setError (Some ''Login failed. Please try again.''))
                         (Vanilla_setLoading False)))) s)"

definition Vanilla_logout :: "(vanilla, unit) js" where
  "Vanilla_logout =
     (\<lambda>s. if apiClient s = None
        then Vanilla_setError (Some ''Authentication not initialized'') s
        else js_seq (Vanilla_setLoading True)
          (js_seq (Vanilla_setError None)
             (try_finally
                (try_catch
                   (js_seq ApiClient_logout
                      (js_seq removeItem (Vanilla_setUser None)))
                   (\<lambda>err. Vanilla_setError (Some ''Logout failed. Please try again.'')))
                (Vanilla_setLoading False))) s)"

definition Vanilla_destroy :: "(vanilla, unit) js" where
  "Vanilla_destroy = (\<lambda>s. (Inr (), s\<lparr>events := clear (events s) None\<rparr>))"

section \<open>Starting states\<close>

text \<open>
  The state a provider is mounted with (the initial values of its \<open>useState\<close>
  calls) and the state a \<open>VanillaAuthClient\<close> is constructed with (its field
  initialisers), on a given page. The constructor of the vanilla client then calls
  \<open>initialize\<close>.

  An operation is atomic in the model. A listener that the application registers while
  a request of the operation is pending is a listener registered when the operation
  starts; the part of \<open>initialize\<close> that runs before its first \<open>await\<close> emits
  \<open>loadingStateChanged\<close> only.
\<close>

definition AuthProvider_initial :: "world \<Rightarrow> auth" where
  "AuthProvider_initial w =
     \<lparr>localStorage = localStorage w, origin = origin w, pathname = pathname w,
      search = search w, navigation = navigation w, requests = requests w,
      server = server w, resolve = resolve w,
      apiClient = None, user = None, isLoading = True, error = None\<rparr>"

definition VanillaAuthClient_new :: "world \<Rightarrow> (callback \<Rightarrow> arg list \<Rightarrow> bool) \<Rightarrow> vanilla" where
  "VanillaAuthClient_new w behaviour =
     \<lparr>localStorage = localStorage w, origin = origin w, pathname = pathname w,
      search = search w, navigation = navigation w, requests = requests w,
      server = server w, resolve = resolve w,
      apiClient = None, user = None, isLoading = True, error = None,
      events = Map.empty, invoked = [], cb_throws = behaviour\<rparr>"

subsection \<open>Example pages, backends and listeners\<close>

definition alice :: UserData where
  "alice = \<lparr>uid = ''u1'', email = ''a@b.com'', display_name = None, photo_url = None\<rparr>"

definition accepting_backend :: backend where
  "accepting_backend =
     \<lparr>login_response = (\<lambda>req. Inr ''https://auth.example/google''),
      callback_response = (\<lambda>req. Inr (''fresh'', alice)),
      verify_response = (\<lambda>req. Inr alice),
      logout_response = (\<lambda>req. Inr ())\<rparr>"

definition rejecting_backend :: backend where
  "rejecting_backend =
     \<lparr>login_response = (\<lambda>req. Inl (HttpError 500)),
      callback_response = (\<lambda>req. Inl (HttpError 401)),
      verify_response = (\<lambda>req. Inl (HttpError 401)),
      logout_response = (\<lambda>req. Inl (HttpError 500))\<rparr>"

text \<open>A backend that verifies tokens and whose logout route is down.\<close>

definition logout_down_backend :: backend where
  "logout_down_backend =
     \<lparr>login_response = (\<lambda>req. Inr ''https://auth.example/google''),
      callback_response = (\<lambda>req. Inr (''fresh'', alice)),
      verify_response = (\<lambda>req. Inr alice),
      logout_response = (\<lambda>req. Inl (HttpError 500))\<rparr>"

text \<open>
  The browser of the example pages. Of a reference that is an absolute path of
  letters, digits, \<open>-\<close>, \<open>_\<close> and slashes, and does not begin with two
  slashes, it makes that path with no query, as every browser does for a document
  whose base URL is its own. The examples pass it no other reference (it is made to
  leave the URL alone on one).
\<close>

definition plain_path :: "string \<Rightarrow> bool" where
  "plain_path ref =
     (case ref of
        [] \<Rightarrow> False
      | c # cs \<Rightarrow>
          c = CHR ''/'' \<and>
          (case cs of [] \<Rightarrow> True | d # _ \<Rightarrow> d \<noteq> CHR ''/'') \<and>
          list_all (\<lambda>x. x \<in> set ''abcdefghijklmnopqrstuvwxyzABCDEFGHIJKLMNOPQRSTUVWXYZ0123456789-_/'') cs)"

definition example_browser :: "string \<Rightarrow> url_parts \<Rightarrow> exn + url_parts" where
  "example_browser ref current = (if plain_path ref then Inr (ref, []) else Inr current)"

definition page :: "string option \<Rightarrow> (string \<times> string) list \<Rightarrow> backend \<Rightarrow> world" where
  "page stored query b =
     \<lparr>localStorage = stored, origin = ''https://app.example'', pathname = ''/auth-callback'',
      search = query, navigation = None, requests = [], server = b,
      resolve = example_browser\<rparr>"

definition default_props :: AuthProviderProps where
  "default_props =
     \<lparr>authBackendUrl = ''http://localhost:8000'',
      loginRedirectPath = None, unauthorizedRedirectPath = None\<rparr>"

definition example_config :: VanillaAuthClientConfig where
  "example_config = \<lparr>authBackendUrl = ''http://localhost:8000'', redirectUri = None\<rparr>"

text \<open>Listeners: none of them throws; or the one numbered 0 throws whenever called.\<close>

definition never_throws :: "nat \<Rightarrow> 'a list \<Rightarrow> bool" where
  "never_throws cb args = False"

definition first_throws :: "nat \<Rightarrow> 'a list \<Rightarrow> bool" where
  "first_throws cb args = (cb = 0)"

text \<open>A signed-in session on a page, as each adapter holds it.\<close>

definition session :: "backend \<Rightarrow> auth" where
  "session b =
     (AuthProvider_initial (page (Some ''tok'') [] b))
       \<lparr>apiClient := Some \<lparr>baseURL = ''http://localhost:8000''\<rparr>,
        user := Some alice, isLoading := False\<rparr>"

definition vanilla_session :: "backend \<Rightarrow> vanilla" where
  "vanilla_session b =
     (VanillaAuthClient_new (page (Some ''tok'') [] b) never_throws)
       \<lparr>apiClient := Some \<lparr>baseURL = ''http://localhost:8000''\<rparr>,
        user := Some alice, isLoading := False,
        events := [''authStateChanged'' \<mapsto> [1]]\<rparr>"

subsection \<open>Notions used to state the properties\<close>

text \<open>The listeners of an event, in the order of their registration.\<close>

definition registered :: "vanilla \<Rightarrow> string \<Rightarrow> callback list" where
  "registered v event = (case events v event of None \<Rightarrow> [] | Some cbs \<Rightarrow> cbs)"

text \<open>
  A reference that the browser of the page resolves to itself as the pathname, with
  no query, wherever the page is: what an absolute path without query and fragment
  is, as \<open>'/'\<close> and \<open>'/login'\<close> are.
\<close>

definition resolves_to_itself :: "'a world_scheme \<Rightarrow> string \<Rightarrow> bool" where
  "resolves_to_itself w ref = (\<forall>current. resolve w ref current = Inr (ref, []))"

text \<open>
  A verification or an exchange request that the backend answered with a failure.
\<close>

definition rejected :: "backend \<Rightarrow> request \<Rightarrow> bool" where
  "rejected b req =
     (endpoint req = ''/verify-token'' \<and> isl (verify_response b req) \<or>
      endpoint req = ''/auth/callback'' \<and> isl (callback_response b req))"

section \<open>Unfolding the model\<close>

lemmas js_defs = js_return_def js_bind_def js_seq_def try_catch_def try_finally_def
  started_before_def

lemmas world_defs = getItem_def setItem_def removeItem_def searchParams_get_def
  replaceState_def assign_href_def

lemmas api_defs = post_def ApiClient_login_def ApiClient_handleCallback_def
  ApiClient_logout_def ApiClient_verifyToken_def ApiClient_getCurrentUser_def

lemmas react_defs = setUser_def setIsLoading_def setError_def setApiClient_def
  AuthProvider_createEffect_def AuthProvider_getUserData_def
  AuthProvider_tokenBlock_def AuthProvider_directToken_def
  AuthProvider_handleCallback_def AuthProvider_checkAuth_def AuthProvider_urlEffect_def
  AuthProvider_mount_def AuthProvider_login_def AuthProvider_logout_def

lemmas vanilla_defs = call_back_def events_emit_def events_on_def events_unsubscribe_def
  Vanilla_setUser_def Vanilla_setLoading_def Vanilla_setError_def
  Vanilla_handleDirectToken_def Vanilla_handleCallback_def Vanilla_checkExistingAuth_def
  Vanilla_initialize_def Vanilla_onAuthStateChanged_def Vanilla_onError_def
  Vanilla_onLoadingStateChanged_def getRedirectUri_def Vanilla_login_def
  Vanilla_logout_def Vanilla_destroy_def

lemmas example_defs = AuthProvider_initial_def VanillaAuthClient_new_def alice_def
  accepting_backend_def rejecting_backend_def logout_down_backend_def page_def
  default_props_def example_config_def never_throws_def first_throws_def
  session_def vanilla_session_def example_browser_def plain_path_def

section \<open>The event emitter\<close>

lemma forEach_made:
  "snd (forEach throws cbs args) =
     map (\<lambda>cb. (cb, args))
       (takeWhile (\<lambda>cb. \<not> throws cb args) cbs @
        take 1 (dropWhile (\<lambda>cb. \<not> throws cb args) cbs))"
  by (induction cbs) (auto split: prod.splits)

lemma forEach_outcome:
  "fst (forEach throws cbs args) =
     (if list_ex (\<lambda>cb. throws cb args) cbs then Inl HandlerThrew else Inr ())"
  by (induction cbs) (auto split: prod.splits)

lemma forEach_all_return:
  "list_all (\<lambda>cb. \<not> throws cb args) cbs \<Longrightarrow>
     forEach throws cbs args = (Inr (), map (\<lambda>cb. (cb, args)) cbs)"
  by (induction cbs) auto

lemma forEach_reaches_last:
  "list_all (\<lambda>cb. \<not> throws cb args) cbs \<Longrightarrow>
     snd (forEach throws (cbs @ [h]) args) = map (\<lambda>cb. (cb, args)) (cbs @ [h])"
  by (induction cbs) (auto split: prod.splits)

lemma count_list_filter_others:
  "cb \<noteq> h \<Longrightarrow> count_list (filter (\<lambda>c. c \<noteq> h) cbs) cb = count_list cbs cb"
  by (induction cbs) auto

text \<open>
  C4, as the code has it. \<open>emit\<close> calls the callbacks of the event in the order of
  their registration, up to and including the first one that throws; that exception
  leaves \<open>emit\<close> and no later callback is called. All of them are called when none
  throws.
\<close>

theorem emit_stops_at_first_throw:
  "em event = Some cbs \<Longrightarrow>
     snd (emit throws em event args) =
       map (\<lambda>cb. (cb, args))
         (takeWhile (\<lambda>cb. \<not> throws cb args) cbs @
          take 1 (dropWhile (\<lambda>cb. \<not> throws cb args) cbs)) \<and>
     fst (emit throws em event args) =
       (if list_ex (\<lambda>cb. throws cb args) cbs then Inl HandlerThrew else Inr ())"
  by (simp add: emit_def forEach_made forEach_outcome)

theorem emit_stops_at_first_throw_witness:
  "snd (emit first_throws (on (on (on Map.empty ''error'' 1) ''error'' 0) ''error'' 2)
          ''error'' [''boom''])
     = [(1, [''boom'']), (0, [''boom''])] \<and>
   fst (emit first_throws (on (on (on Map.empty ''error'' 1) ''error'' 0) ''error'' 2)
          ''error'' [''boom''])
     = Inl HandlerThrew"
proof -
  have h: "(on (on (on Map.empty ''error'' 1) ''error'' 0) ''error'' 2) ''error''
             = Some [1, 0, 2::nat]"
    by (simp add: on_def)
  from emit_stops_at_first_throw
    [of "on (on (on Map.empty ''error'' 1) ''error'' 0) ''error'' 2" "''error''" "[1, 0, 2]"
      first_throws "[''boom'']"] h
  show ?thesis by (simp add: first_throws_def)
qed

text \<open>
  C4 as stated fails: with two callbacks on an event, the first of which throws, the
  second is never called.
\<close>

theorem emit_skips_after_throw_counterexample:
  "emit first_throws (on (on Map.empty ''error'' 0) ''error'' 1) ''error'' [''boom'']
     = (Inl HandlerThrew, [(0, [''boom''])])"
  by (simp add: emit_def on_def first_throws_def)

text \<open>
  C8, as the code has it. A callback subscribed to an event is called with the
  published arguments by the next \<open>emit\<close> of that event when no callback registered
  before it on the event throws, and every call \<open>emit\<close> makes has the published
  arguments; after \<open>clear()\<close> an \<open>emit\<close> calls nothing, on any event; the
  unsubscribe function takes out the callback it was made for and leaves the others of
  the event registered, each as often as before.
\<close>

theorem subscribe_publish_clear_unsubscribe:
  "(list_all (\<lambda>cb. \<not> throws cb args) (case em event of None \<Rightarrow> [] | Some cbs \<Rightarrow> cbs) \<longrightarrow>
      (h, args) \<in> set (snd (emit throws (on em event h) event args))) \<and>
   (\<forall>c \<in> set (snd (emit throws (on em event h) event args)). snd c = args) \<and>
   emit throws (clear em None) event args = (Inr (), []) \<and>
   (em event = Some cbs \<longrightarrow>
      (\<exists>em'. unsubscribe em event h = Inr em' \<and>
         em' event = Some (filter (\<lambda>cb. cb \<noteq> h) cbs) \<and>
         (\<forall>cb. cb \<noteq> h \<longrightarrow> count_list (filter (\<lambda>cb. cb \<noteq> h) cbs) cb = count_list cbs cb)))"
proof -
  have a: "list_all (\<lambda>cb. \<not> throws cb args) (case em event of None \<Rightarrow> [] | Some cbs \<Rightarrow> cbs) \<longrightarrow>
      (h, args) \<in> set (snd (emit throws (on em event h) event args))"
    by (cases "em event") (auto simp: emit_def on_def forEach_reaches_last split: prod.splits)
  have b: "\<forall>c \<in> set (snd (emit throws (on em event h) event args)). snd c = args"
    by (cases "em event")
      (auto simp: emit_def on_def forEach_made split: prod.splits
        dest: set_takeWhileD in_set_takeD)
  have c: "emit throws (clear em None) event args = (Inr (), [])"
    by (simp add: emit_def clear_def or_undefined_def)
  from a b c show ?thesis
    by (simp add: unsubscribe_def count_list_filter_others)
qed

theorem subscribe_publish_clear_unsubscribe_witness:
  "(3, [''hello'']) \<in> set (snd (emit never_throws (on [''error'' \<mapsto> [1, 3, 2]] ''error'' 3)
                                ''error'' [''hello''])) \<and>
   emit never_throws (clear [''error'' \<mapsto> [1, 3, 2]] None) ''error'' [''hello''] = (Inr (), []) \<and>
   (\<exists>em'. unsubscribe [''error'' \<mapsto> [1, 3, 2]] ''error'' 3 = Inr em' \<and>
      em' ''error'' = Some [1, 2::nat])"
proof -
  have h: "list_all (\<lambda>cb. \<not> never_throws cb [''hello''])
             (case [''error'' \<mapsto> [1, 3, 2::nat]] ''error'' of None \<Rightarrow> [] | Some cbs \<Rightarrow> cbs)"
    by (simp add: never_throws_def)
  have k: "[''error'' \<mapsto> [1, 3, 2::nat]] ''error'' = Some [1, 3, 2]"
    by simp
  from subscribe_publish_clear_unsubscribe
    [of never_throws "[''hello'']" "[''error'' \<mapsto> [1, 3, 2]]" "''error''" 3 "[1, 3, 2]"] h k
  show ?thesis by auto
qed

text \<open>
  C8 as stated fails: a callback subscribed behind one that throws is not called by
  the \<open>emit\<close> that follows its subscription.
\<close>

theorem subscribe_behind_throwing_counterexample:
  "(1, [''hello'']) \<notin>
     set (snd (emit first_throws (on [''error'' \<mapsto> [0]] ''error'' 1) ''error'' [''hello'']))"
  by (simp add: emit_def on_def first_throws_def)

text \<open>
  C10. The unsubscribe function of a callback on an event leaves no registration of
  that callback on the event (the other callbacks stay, each as often as before); two
  registrations of one callback are both gone after one call; a second call changes
  nothing; the arrays of the other events are untouched.
\<close>

theorem unsubscribe_removes_every_registration:
  "(em event = Some cbs \<longrightarrow>
      (\<exists>em'. unsubscribe em event h = Inr em' \<and>
         (\<exists>cbs'. em' event = Some cbs' \<and> h \<notin> set cbs' \<and>
            (\<forall>cb. cb \<noteq> h \<longrightarrow> count_list cbs' cb = count_list cbs cb)))) \<and>
   (\<exists>em'. unsubscribe (on (on em event h) event h) event h = Inr em' \<and>
      (\<exists>cbs'. em' event = Some cbs' \<and> h \<notin> set cbs')) \<and>
   (unsubscribe em event h = Inr em1 \<longrightarrow> unsubscribe em1 event h = Inr em1) \<and>
   (unsubscribe em event h = Inr em1 \<longrightarrow> other \<noteq> event \<longrightarrow> em1 other = em other)"
proof -
  have first: "em event = Some cbs \<longrightarrow>
      (\<exists>em'. unsubscribe em event h = Inr em' \<and>
         (\<exists>cbs'. em' event = Some cbs' \<and> h \<notin> set cbs' \<and>
            (\<forall>cb. cb \<noteq> h \<longrightarrow> count_list cbs' cb = count_list cbs cb)))"
    by (simp add: unsubscribe_def count_list_filter_others)
  have twice: "\<exists>em'. unsubscribe (on (on em event h) event h) event h = Inr em' \<and>
      (\<exists>cbs'. em' event = Some cbs' \<and> h \<notin> set cbs')"
    by (cases "em event") (simp_all add: unsubscribe_def on_def)
  have again: "unsubscribe em event h = Inr em1 \<longrightarrow> unsubscribe em1 event h = Inr em1"
    by (cases "em event") (auto simp: unsubscribe_def)
  have others: "unsubscribe em event h = Inr em1 \<longrightarrow> other \<noteq> event \<longrightarrow> em1 other = em other"
    by (cases "em event") (auto simp: unsubscribe_def)
  from first twice again others show ?thesis by blast
qed

theorem unsubscribe_removes_every_registration_witness:
  "unsubscribe [''authStateChanged'' \<mapsto> [5], ''error'' \<mapsto> [5, 6, 5::nat]] ''error'' 5
     = Inr [''authStateChanged'' \<mapsto> [5], ''error'' \<mapsto> [6]] \<and>
   unsubscribe [''authStateChanged'' \<mapsto> [5], ''error'' \<mapsto> [6::nat]] ''error'' 5
     = Inr [''authStateChanged'' \<mapsto> [5], ''error'' \<mapsto> [6]]"
proof -
  let ?em = "[''authStateChanged'' \<mapsto> [5], ''error'' \<mapsto> [5, 6, 5::nat]]"
  let ?em1 = "[''authStateChanged'' \<mapsto> [5], ''error'' \<mapsto> [6::nat]]"
  have h: "?em ''error'' = Some [5, 6, 5]"
    by simp
  have u: "unsubscribe ?em ''error'' 5 = Inr ?em1"
    by (simp add: unsubscribe_def)
  from unsubscribe_removes_every_registration
    [of ?em "''error''" "[5, 6, 5]" 5 ?em1 "''authStateChanged''"] h u
  show ?thesis by simp
qed

section \<open>The API client\<close>

text \<open>
  C9. The interceptor puts \<open>Authorization: Bearer <token>\<close> on a request when the
  token store holds a (non-empty) token and leaves the rest of the request as it was;
  it leaves the whole request as it was when the store holds none. Every method of
  the client sends one request, and that request went through the interceptor with
  the token the store held when the method was called.
\<close>

theorem interceptor_sets_bearer_token:
  "(or_undefined token = Some t \<longrightarrow>
      headers (interceptor token config) ''Authorization'' = Some (''Bearer '' @ t) \<and>
      (\<forall>name. name \<noteq> ''Authorization'' \<longrightarrow>
         headers (interceptor token config) name = headers config name) \<and>
      endpoint (interceptor token config) = endpoint config \<and>
      data (interceptor token config) = data config) \<and>
   (or_undefined token = None \<longrightarrow> interceptor token config = config) \<and>
   requests (snd (ApiClient_login uri w)) =
     requests w @ [interceptor (getItem w)
       \<lparr>endpoint = ''/auth/login'',
        data = LoginBody (case or_undefined uri of Some u \<Rightarrow> u | None \<Rightarrow> origin w),
        headers = [''Content-Type'' \<mapsto> ''application/json'']\<rparr>] \<and>
   requests (snd (ApiClient_handleCallback code state w)) =
     requests w @ [interceptor (getItem w)
       \<lparr>endpoint = ''/auth/callback'', data = CallbackBody code state,
        headers = [''Content-Type'' \<mapsto> ''application/json'']\<rparr>] \<and>
   requests (snd (ApiClient_logout w)) =
     requests w @ [interceptor (getItem w)
       \<lparr>endpoint = ''/auth/logout'', data = NoBody,
        headers = [''Content-Type'' \<mapsto> ''application/json'']\<rparr>] \<and>
   requests (snd (ApiClient_verifyToken given w)) =
     requests w @ [interceptor (getItem w)
       \<lparr>endpoint = ''/verify-token'', data = NoBody,
        headers = [''Content-Type'' \<mapsto> ''application/json'',
                   ''Authorization'' \<mapsto> ''Bearer '' @ given]\<rparr>] \<and>
   requests (snd (ApiClient_getCurrentUser w)) =
     requests w @ [interceptor (getItem w)
       \<lparr>endpoint = ''/verify-token'', data = NoBody,
        headers = [''Content-Type'' \<mapsto> ''application/json'']\<rparr>]"
  by (auto simp: interceptor_def api_defs outgoing_def Let_def split: option.splits)

theorem interceptor_sets_bearer_token_witness:
  "headers (last (requests (snd (ApiClient_getCurrentUser
      (page (Some ''abc'') [] accepting_backend))))) ''Authorization'' = Some ''Bearer abc'' \<and>
   headers (last (requests (snd (ApiClient_getCurrentUser
      (page None [] accepting_backend))))) ''Authorization'' = None"
proof -
  have a: "or_undefined (Some ''abc'') = Some ''abc''" and b: "or_undefined None = None"
    by (simp_all add: or_undefined_def)
  have g1: "getItem (page (Some ''abc'') [] accepting_backend) = Some ''abc''"
    and g2: "getItem (page None [] accepting_backend) = None"
    by (simp_all add: getItem_def page_def)
  note t1 = interceptor_sets_bearer_token [of "Some ''abc''" "''abc''"
      "\<lparr>endpoint = ''/verify-token'', data = NoBody,
        headers = [''Content-Type'' \<mapsto> ''application/json'']\<rparr>"
      None "page (Some ''abc'') [] accepting_backend"]
  note t2 = interceptor_sets_bearer_token [of None "''abc''"
      "\<lparr>endpoint = ''/verify-token'', data = NoBody,
        headers = [''Content-Type'' \<mapsto> ''application/json'']\<rparr>"
      None "page None [] accepting_backend"]
  from t1 a g1 have "headers (last (requests (snd (ApiClient_getCurrentUser
      (page (Some ''abc'') [] accepting_backend))))) ''Authorization'' = Some ''Bearer abc''"
    by simp
  moreover from t2 b g2 have "headers (last (requests (snd (ApiClient_getCurrentUser
      (page None [] accepting_backend))))) ''Authorization'' = None"
    by simp
  ultimately show ?thesis by simp
qed

section \<open>The authentication state machine\<close>

lemma or_undefined_simps:
  "or_undefined None = None"
  "or_undefined (Some []) = None"
  "or_undefined (Some (c # cs)) = Some (c # cs)"
  by (simp_all add: or_undefined_def)

lemma interceptor_endpoint:
  "endpoint (interceptor token config) = endpoint config"
  by (simp add: interceptor_def split: option.splits)

lemma emit_made_when_none_throws:
  "list_all (\<lambda>cb. \<not> throws cb args) (case em event of None \<Rightarrow> [] | Some cbs \<Rightarrow> cbs) \<Longrightarrow>
     emit throws em event args =
       (Inr (), map (\<lambda>cb. (cb, args)) (case em event of None \<Rightarrow> [] | Some cbs \<Rightarrow> cbs))"
  by (cases "em event") (simp_all add: emit_def forEach_all_return)

lemma emit_all_return:
  "\<forall>cb. \<not> throws cb args \<Longrightarrow>
     emit throws em event args =
       (Inr (), map (\<lambda>cb. (cb, args)) (case em event of None \<Rightarrow> [] | Some cbs \<Rightarrow> cbs))"
  by (rule emit_made_when_none_throws) (simp add: list_all_iff)

text \<open>When no listener throws, an emission only adds to the calls made.\<close>

lemma events_emit_quiet:
  "\<forall>cb a. \<not> cb_throws v cb a \<Longrightarrow>
     events_emit event args v =
       (Inr (), v\<lparr>invoked := invoked v @ map (\<lambda>cb. (cb, args)) (registered v event)\<rparr>)"
  by (simp add: events_emit_def emit_all_return registered_def)

lemmas quiet_run = call_back_def events_on_def events_unsubscribe_def
  Vanilla_setUser_def Vanilla_setLoading_def Vanilla_setError_def
  Vanilla_handleDirectToken_def Vanilla_handleCallback_def Vanilla_checkExistingAuth_def
  Vanilla_initialize_def Vanilla_onAuthStateChanged_def Vanilla_onError_def
  Vanilla_onLoadingStateChanged_def getRedirectUri_def Vanilla_login_def
  Vanilla_logout_def Vanilla_destroy_def
  events_emit_quiet js_defs world_defs api_defs outgoing_def Let_def
  or_undefined_simps interceptor_endpoint

lemmas run_example = react_defs vanilla_defs js_defs world_defs api_defs outgoing_def
  Let_def or_undefined_def interceptor_def example_defs emit_def on_def
  createApiClient_def login_path_def unauthorized_path_def

text \<open>
  C6. An initialization on a URL with no \<open>token\<close> and no \<open>code\<close> parameter, with a
  token in the store that the backend refuses to verify (with 401 or any other
  failure), ends with \<open>user\<close> null, \<open>isLoading\<close> false, an error set and the token
  store empty. This holds for the React provider and for the vanilla client, whatever
  its listeners do.
\<close>

theorem stale_token_settles_anonymous:
  "(or_undefined (searchParams_get s ''token'') = None \<and>
    or_undefined (searchParams_get s ''code'') = None \<and>
    or_undefined (getItem s) = Some t \<and>
    verify_response (server s) (outgoing s ''/verify-token'' NoBody Map.empty) = Inl e \<and>
    user s = None \<longrightarrow>
      user (snd (AuthProvider_mount props s)) = None \<and>
      \<not> isLoading (snd (AuthProvider_mount props s)) \<and>
      error (snd (AuthProvider_mount props s)) \<noteq> None \<and>
      localStorage (snd (AuthProvider_mount props s)) = None) \<and>
   (or_undefined (searchParams_get v ''token'') = None \<and>
    or_undefined (searchParams_get v ''code'') = None \<and>
    or_undefined (getItem v) = Some t \<and>
    verify_response (server v) (outgoing v ''/verify-token'' NoBody Map.empty) = Inl e \<and>
    user v = None \<longrightarrow>
      user (snd (Vanilla_initialize config v)) = None \<and>
      \<not> isLoading (snd (Vanilla_initialize config v)) \<and>
      error (snd (Vanilla_initialize config v)) \<noteq> None \<and>
      localStorage (snd (Vanilla_initialize config v)) = None)"
proof -
  have c1: "(or_undefined (searchParams_get s ''token'') = None \<and>
    or_undefined (searchParams_get s ''code'') = None \<and>
    or_undefined (getItem s) = Some t \<and>
    verify_response (server s) (outgoing s ''/verify-token'' NoBody Map.empty) = Inl e \<and>
    user s = None \<longrightarrow>
      user (snd (AuthProvider_mount props s)) = None \<and>
      \<not> isLoading (snd (AuthProvider_mount props s)) \<and>
      error (snd (AuthProvider_mount props s)) \<noteq> None \<and>
      localStorage (snd (AuthProvider_mount props s)) = None)"
    by (simp add: react_defs js_defs world_defs api_defs outgoing_def Let_def)
  have c2: "(or_undefined (searchParams_get v ''token'') = None \<and>
    or_undefined (searchParams_get v ''code'') = None \<and>
    or_undefined (getItem v) = Some t \<and>
    verify_response (server v) (outgoing v ''/verify-token'' NoBody Map.empty) = Inl e \<and>
    user v = None \<longrightarrow>
      user (snd (Vanilla_initialize config v)) = None \<and>
      \<not> isLoading (snd (Vanilla_initialize config v)) \<and>
      error (snd (Vanilla_initialize config v)) \<noteq> None \<and>
      localStorage (snd (Vanilla_initialize config v)) = None)"
    by (simp add: vanilla_defs js_defs world_defs api_defs outgoing_def Let_def
        or_undefined_def split: prod.splits sum.splits)
  from c1 c2 show ?thesis by blast
qed

theorem stale_token_settles_anonymous_witness:
  "user (snd (AuthProvider_mount default_props
      (AuthProvider_initial (page (Some ''stale'') [] rejecting_backend)))) = None \<and>
   \<not> isLoading (snd (AuthProvider_mount default_props
      (AuthProvider_initial (page (Some ''stale'') [] rejecting_backend)))) \<and>
   error (snd (AuthProvider_mount default_props
      (AuthProvider_initial (page (Some ''stale'') [] rejecting_backend)))) \<noteq> None \<and>
   localStorage (snd (AuthProvider_mount default_props
      (AuthProvider_initial (page (Some ''stale'') [] rejecting_backend)))) = None \<and>
   user (snd (Vanilla_initialize example_config
      (VanillaAuthClient_new (page (Some ''stale'') [] rejecting_backend) first_throws))) = None \<and>
   \<not> isLoading (snd (Vanilla_initialize example_config
      (VanillaAuthClient_new (page (Some ''stale'') [] rejecting_backend) first_throws))) \<and>
   error (snd (Vanilla_initialize example_config
      (VanillaAuthClient_new (page (Some ''stale'') [] rejecting_backend) first_throws))) \<noteq> None \<and>
   localStorage (snd (Vanilla_initialize example_config
      (VanillaAuthClient_new (page (Some ''stale'') [] rejecting_backend) first_throws))) = None"
proof -
  let ?s = "AuthProvider_initial (page (Some ''stale'') [] rejecting_backend)"
  let ?v = "VanillaAuthClient_new (page (Some ''stale'') [] rejecting_backend) first_throws"
  have hs: "or_undefined (searchParams_get ?s ''token'') = None \<and>
    or_undefined (searchParams_get ?s ''code'') = None \<and>
    or_undefined (getItem ?s) = Some ''stale'' \<and>
    verify_response (server ?s) (outgoing ?s ''/verify-token'' NoBody Map.empty)
      = Inl (HttpError 401) \<and>
    user ?s = None"
    by (simp add: example_defs world_defs or_undefined_def)
  have hv: "or_undefined (searchParams_get ?v ''token'') = None \<and>
    or_undefined (searchParams_get ?v ''code'') = None \<and>
    or_undefined (getItem ?v) = Some ''stale'' \<and>
    verify_response (server ?v) (outgoing ?v ''/verify-token'' NoBody Map.empty)
      = Inl (HttpError 401) \<and>
    user ?v = None"
    by (simp add: example_defs world_defs or_undefined_def)
  from stale_token_settles_anonymous
    [of ?s "''stale''" "HttpError 401" default_props ?v example_config] hs hv
  show ?thesis by blast
qed

text \<open>
  C1, as the code has it. With the API client initialized, \<open>logout()\<close> clears
  \<open>user\<close> and the token store when the backend logout call succeeds. When the call
  fails, \<open>error\<close> is set to the logout failure message and \<open>user\<close> and the stored
  token are left as they were. \<open>isLoading\<close> is false at the end in both cases. For the
  vanilla client this is stated for listeners that do not throw; that a failed call
  leaves \<open>user\<close> and the token in place holds for it whatever the listeners do.
\<close>

theorem logout_clears_only_on_success:
  "(apiClient s \<noteq> None \<and> logout_response (server s) (outgoing s ''/auth/logout'' NoBody Map.empty) = Inr () \<longrightarrow>
      user (snd (AuthProvider_logout s)) = None \<and>
      localStorage (snd (AuthProvider_logout s)) = None \<and>
      error (snd (AuthProvider_logout s)) = None \<and>
      \<not> isLoading (snd (AuthProvider_logout s))) \<and>
   (apiClient s \<noteq> None \<and> logout_response (server s) (outgoing s ''/auth/logout'' NoBody Map.empty) = Inl e \<longrightarrow>
      user (snd (AuthProvider_logout s)) = user s \<and>
      localStorage (snd (AuthProvider_logout s)) = localStorage s \<and>
      error (snd (AuthProvider_logout s)) = Some ''Logout failed. Please try again.'' \<and>
      \<not> isLoading (snd (AuthProvider_logout s))) \<and>
   (apiClient v \<noteq> None \<and> (\<forall>cb a. \<not> cb_throws v cb a) \<and> logout_response (server v) (outgoing v ''/auth/logout'' NoBody Map.empty) = Inr () \<longrightarrow>
      user (snd (Vanilla_logout v)) = None \<and>
      localStorage (snd (Vanilla_logout v)) = None \<and>
      error (snd (Vanilla_logout v)) = None \<and>
      \<not> isLoading (snd (Vanilla_logout v))) \<and>
   (apiClient v \<noteq> None \<and> (\<forall>cb a. \<not> cb_throws v cb a) \<and> logout_response (server v) (outgoing v ''/auth/logout'' NoBody Map.empty) = Inl e \<longrightarrow>
      error (snd (Vanilla_logout v)) = Some ''Logout failed. Please try again.'' \<and>
      \<not> isLoading (snd (Vanilla_logout v))) \<and>
   (logout_response (server v) (outgoing v ''/auth/logout'' NoBody Map.empty) = Inl e \<longrightarrow>
      user (snd (Vanilla_logout v)) = user v \<and>
      localStorage (snd (Vanilla_logout v)) = localStorage v)"
proof -
  have c1: "(apiClient s \<noteq> None \<and> logout_response (server s) (outgoing s ''/auth/logout'' NoBody Map.empty) = Inr () \<longrightarrow>
      user (snd (AuthProvider_logout s)) = None \<and>
      localStorage (snd (AuthProvider_logout s)) = None \<and>
      error (snd (AuthProvider_logout s)) = None \<and>
      \<not> isLoading (snd (AuthProvider_logout s)))"
    by (auto simp: react_defs js_defs world_defs api_defs outgoing_def Let_def
        split: sum.splits)
  have c2: "(apiClient s \<noteq> None \<and> logout_response (server s) (outgoing s ''/auth/logout'' NoBody Map.empty) = Inl e \<longrightarrow>
      user (snd (AuthProvider_logout s)) = user s \<and>
      localStorage (snd (AuthProvider_logout s)) = localStorage s \<and>
      error (snd (AuthProvider_logout s)) = Some ''Logout failed. Please try again.'' \<and>
      \<not> isLoading (snd (AuthProvider_logout s)))"
    by (auto simp: react_defs js_defs world_defs api_defs outgoing_def Let_def
        split: sum.splits)
  have c3: "(apiClient v \<noteq> None \<and> (\<forall>cb a. \<not> cb_throws v cb a) \<and> logout_response (server v) (outgoing v ''/auth/logout'' NoBody Map.empty) = Inr () \<longrightarrow>
      user (snd (Vanilla_logout v)) = None \<and>
      localStorage (snd (Vanilla_logout v)) = None \<and>
      error (snd (Vanilla_logout v)) = None \<and>
      \<not> isLoading (snd (Vanilla_logout v)))"
    by (auto simp: quiet_run split: sum.splits)
  have c4: "(apiClient v \<noteq> None \<and> (\<forall>cb a. \<not> cb_throws v cb a) \<and> logout_response (server v) (outgoing v ''/auth/logout'' NoBody Map.empty) = Inl e \<longrightarrow>
      error (snd (Vanilla_logout v)) = Some ''Logout failed. Please try again.'' \<and>
      \<not> isLoading (snd (Vanilla_logout v)))"
    by (auto simp: quiet_run split: sum.splits)
  have c5: "(logout_response (server v) (outgoing v ''/auth/logout'' NoBody Map.empty) = Inl e \<longrightarrow>
      user (snd (Vanilla_logout v)) = user v \<and>
      localStorage (snd (Vanilla_logout v)) = localStorage v)"
    by (simp add: vanilla_defs js_defs world_defs api_defs outgoing_def Let_def
        or_undefined_def split: prod.splits sum.splits)
  from c1 c2 c3 c4 c5 show ?thesis by blast
qed

theorem logout_clears_only_on_success_witness:
  "user (snd (AuthProvider_logout (session accepting_backend))) = None \<and>
   localStorage (snd (AuthProvider_logout (session accepting_backend))) = None \<and>
   user (snd (AuthProvider_logout (session logout_down_backend))) = Some alice \<and>
   localStorage (snd (AuthProvider_logout (session logout_down_backend))) = Some ''tok'' \<and>
   user (snd (Vanilla_logout (vanilla_session accepting_backend))) = None \<and>
   localStorage (snd (Vanilla_logout (vanilla_session accepting_backend))) = None \<and>
   user (snd (Vanilla_logout (vanilla_session logout_down_backend))) = Some alice \<and>
   localStorage (snd (Vanilla_logout (vanilla_session logout_down_backend))) = Some ''tok'' \<and>
   error (snd (Vanilla_logout (vanilla_session logout_down_backend)))
     = Some ''Logout failed. Please try again.''"
proof -
  let ?ok = "session accepting_backend" and ?down = "session logout_down_backend"
  let ?vok = "vanilla_session accepting_backend"
  let ?vdown = "vanilla_session logout_down_backend"
  have h1: "apiClient ?ok \<noteq> None \<and>
    logout_response (server ?ok) (outgoing ?ok ''/auth/logout'' NoBody Map.empty) = Inr ()"
    by (simp add: example_defs)
  have h2: "apiClient ?down \<noteq> None \<and>
    logout_response (server ?down) (outgoing ?down ''/auth/logout'' NoBody Map.empty)
      = Inl (HttpError 500)"
    by (simp add: example_defs)
  have h3: "apiClient ?vok \<noteq> None \<and> (\<forall>cb a. \<not> cb_throws ?vok cb a) \<and>
    logout_response (server ?vok) (outgoing ?vok ''/auth/logout'' NoBody Map.empty) = Inr ()"
    by (simp add: example_defs)
  have h4: "apiClient ?vdown \<noteq> None \<and> (\<forall>cb a. \<not> cb_throws ?vdown cb a) \<and>
    logout_response (server ?vdown) (outgoing ?vdown ''/auth/logout'' NoBody Map.empty)
      = Inl (HttpError 500)"
    by (simp add: example_defs)
  have before: "user ?down = Some alice \<and> localStorage ?down = Some ''tok'' \<and>
    user ?vdown = Some alice \<and> localStorage ?vdown = Some ''tok''"
    by (simp add: example_defs)
  from logout_clears_only_on_success [of ?ok "HttpError 500" ?vok]
    logout_clears_only_on_success [of ?down "HttpError 500" ?vdown]
    h1 h2 h3 h4 before
  show ?thesis by simp
qed

text \<open>
  C1 as stated fails: a provider mounted on a page with a valid stored token, then
  \<open>logout()\<close> while the logout route of the backend is down. The user is still set
  and the token is still stored.
\<close>

theorem logout_failure_keeps_session_counterexample:
  "user (snd (AuthProvider_logout (snd (AuthProvider_mount default_props
      (AuthProvider_initial (page (Some ''tok'') [] logout_down_backend)))))) = Some alice \<and>
   localStorage (snd (AuthProvider_logout (snd (AuthProvider_mount default_props
      (AuthProvider_initial (page (Some ''tok'') [] logout_down_backend)))))) = Some ''tok'' \<and>
   error (snd (AuthProvider_logout (snd (AuthProvider_mount default_props
      (AuthProvider_initial (page (Some ''tok'') [] logout_down_backend)))))) =
     Some ''Logout failed. Please try again.''"
  by (simp add: run_example)

text \<open>
  C2, where the code departs from it. The vanilla client is constructed on
  \<open>/auth-callback?token=stale\<close> and the backend refuses the token. One verification
  request is sent and the error is set, but \<open>replaceState\<close> is never reached: the
  URL still carries the \<open>token\<close> parameter when initialization ends.
\<close>

theorem vanilla_direct_token_failure_keeps_token_in_url:
  "searchParams_get (snd (Vanilla_initialize example_config
      (VanillaAuthClient_new (page None [(''token'', ''stale'')] rejecting_backend) never_throws)))
      ''token'' = Some ''stale'' \<and>
   map endpoint (requests (snd (Vanilla_initialize example_config
      (VanillaAuthClient_new (page None [(''token'', ''stale'')] rejecting_backend) never_throws))))
     = [''/verify-token''] \<and>
   error (snd (Vanilla_initialize example_config
      (VanillaAuthClient_new (page None [(''token'', ''stale'')] rejecting_backend) never_throws)))
     = Some ''Authentication failed. Please try again.''"
  by (simp add: run_example)




text \<open>
  C7, where the code departs from it. The vanilla client is constructed on
  \<open>/auth-callback?token=stale\<close>; the application registers an \<open>onError\<close> listener
  that throws; the backend refuses the token. The handler of the failure calls
  \<open>setError\<close> first, the listener throws out of it, and \<open>removeItem\<close> is skipped:
  the refused token is still in the store when initialization ends.
\<close>

theorem throwing_error_listener_keeps_rejected_token:
  "localStorage (snd (Vanilla_initialize example_config (snd (Vanilla_onError 0
      (VanillaAuthClient_new (page None [(''token'', ''stale'')] rejecting_backend) first_throws)))))
     = Some ''stale'' \<and>
   list_ex (rejected rejecting_backend)
     (requests (snd (Vanilla_initialize example_config (snd (Vanilla_onError 0
      (VanillaAuthClient_new (page None [(''token'', ''stale'')] rejecting_backend) first_throws)))))) \<and>
   invoked (snd (Vanilla_initialize example_config (snd (Vanilla_onError 0
      (VanillaAuthClient_new (page None [(''token'', ''stale'')] rejecting_backend) first_throws)))))
     = [(0, [ErrorArg ''Authentication failed. Please try again.'']),
        (0, [ErrorArg ''Failed to initialize authentication''])]"
  by (simp add: run_example rejected_def)

section \<open>The listeners of the vanilla client\<close>

text \<open>
  C3, as the code has it. \<open>onAuthStateChanged\<close> and \<open>onLoadingStateChanged\<close>
  call the listener once, at once, with the current value (and register it when that
  call returns); \<open>onError\<close> registers the listener and calls nothing. From then on
  every \<open>setUser\<close> and \<open>setLoading\<close> calls the listeners of its event with the new
  value, and \<open>setError\<close> calls the error listeners with the message when there is a
  (non-empty) message and calls nothing when the error is cleared, each listener once
  per registration and in the order of registration, as long as none of them throws.
  After \<open>destroy()\<close> no listener is registered, and no transition calls one.
\<close>

theorem listeners_are_notified:
  "(\<not> cb_throws v cb [UserArg (user v)] \<longrightarrow>
      Vanilla_onAuthStateChanged cb v =
        (Inr (), v\<lparr>invoked := invoked v @ [(cb, [UserArg (user v)])],
                   events := on (events v) ''authStateChanged'' cb\<rparr>)) \<and>
   (\<not> cb_throws v cb [LoadingArg (isLoading v)] \<longrightarrow>
      Vanilla_onLoadingStateChanged cb v =
        (Inr (), v\<lparr>invoked := invoked v @ [(cb, [LoadingArg (isLoading v)])],
                   events := on (events v) ''loadingStateChanged'' cb\<rparr>)) \<and>
   Vanilla_onError cb v = (Inr (), v\<lparr>events := on (events v) ''error'' cb\<rparr>) \<and>
   (list_all (\<lambda>c. \<not> cb_throws v c [UserArg u]) (registered v ''authStateChanged'') \<longrightarrow>
      invoked (snd (Vanilla_setUser u v)) =
        invoked v @ map (\<lambda>c. (c, [UserArg u])) (registered v ''authStateChanged'')) \<and>
   (list_all (\<lambda>c. \<not> cb_throws v c [LoadingArg b]) (registered v ''loadingStateChanged'') \<longrightarrow>
      invoked (snd (Vanilla_setLoading b v)) =
        invoked v @ map (\<lambda>c. (c, [LoadingArg b])) (registered v ''loadingStateChanged'')) \<and>
   (or_undefined e = Some msg \<and>
    list_all (\<lambda>c. \<not> cb_throws v c [ErrorArg msg]) (registered v ''error'') \<longrightarrow>
      invoked (snd (Vanilla_setError e v)) =
        invoked v @ map (\<lambda>c. (c, [ErrorArg msg])) (registered v ''error'')) \<and>
   (or_undefined e = None \<longrightarrow> invoked (snd (Vanilla_setError e v)) = invoked v) \<and>
   events (snd (Vanilla_destroy v)) = Map.empty \<and>
   invoked (snd (Vanilla_setUser u (snd (Vanilla_destroy v)))) = invoked v \<and>
   invoked (snd (Vanilla_setLoading b (snd (Vanilla_destroy v)))) = invoked v \<and>
   invoked (snd (Vanilla_setError e (snd (Vanilla_destroy v)))) = invoked v"
proof -
  have c1: "(\<not> cb_throws v cb [UserArg (user v)] \<longrightarrow>
      Vanilla_onAuthStateChanged cb v =
        (Inr (), v\<lparr>invoked := invoked v @ [(cb, [UserArg (user v)])],
                   events := on (events v) ''authStateChanged'' cb\<rparr>))"
    by (simp add: Vanilla_onAuthStateChanged_def call_back_def events_on_def js_defs)
  have c2: "(\<not> cb_throws v cb [LoadingArg (isLoading v)] \<longrightarrow>
      Vanilla_onLoadingStateChanged cb v =
        (Inr (), v\<lparr>invoked := invoked v @ [(cb, [LoadingArg (isLoading v)])],
                   events := on (events v) ''loadingStateChanged'' cb\<rparr>))"
    by (simp add: Vanilla_onLoadingStateChanged_def call_back_def events_on_def js_defs)
  have c3: "Vanilla_onError cb v = (Inr (), v\<lparr>events := on (events v) ''error'' cb\<rparr>)"
    by (simp add: Vanilla_onError_def events_on_def)
  have c4: "(list_all (\<lambda>c. \<not> cb_throws v c [UserArg u]) (registered v ''authStateChanged'') \<longrightarrow>
      invoked (snd (Vanilla_setUser u v)) =
        invoked v @ map (\<lambda>c. (c, [UserArg u])) (registered v ''authStateChanged''))"
    by (simp add: Vanilla_setUser_def events_emit_def js_defs registered_def
        emit_made_when_none_throws)
  have c5: "(list_all (\<lambda>c. \<not> cb_throws v c [LoadingArg b]) (registered v ''loadingStateChanged'') \<longrightarrow>
      invoked (snd (Vanilla_setLoading b v)) =
        invoked v @ map (\<lambda>c. (c, [LoadingArg b])) (registered v ''loadingStateChanged''))"
    by (simp add: Vanilla_setLoading_def events_emit_def js_defs registered_def
        emit_made_when_none_throws)
  have c6: "(or_undefined e = Some msg \<and>
    list_all (\<lambda>c. \<not> cb_throws v c [ErrorArg msg]) (registered v ''error'') \<longrightarrow>
      invoked (snd (Vanilla_setError e v)) =
        invoked v @ map (\<lambda>c. (c, [ErrorArg msg])) (registered v ''error''))"
    by (simp add: Vanilla_setError_def events_emit_def js_defs registered_def
        emit_made_when_none_throws)
  have c7: "(or_undefined e = None \<longrightarrow> invoked (snd (Vanilla_setError e v)) = invoked v)"
    by (simp add: Vanilla_setError_def js_defs)
  have c8: "events (snd (Vanilla_destroy v)) = Map.empty"
    by (simp add: Vanilla_destroy_def clear_def or_undefined_def)
  have c9: "invoked (snd (Vanilla_setUser u (snd (Vanilla_destroy v)))) = invoked v"
    by (simp add: Vanilla_setUser_def Vanilla_destroy_def events_emit_def js_defs
        clear_def or_undefined_def emit_def)
  have c10: "invoked (snd (Vanilla_setLoading b (snd (Vanilla_destroy v)))) = invoked v"
    by (simp add: Vanilla_setLoading_def Vanilla_destroy_def events_emit_def js_defs
        clear_def or_undefined_def emit_def)
  have c11: "invoked (snd (Vanilla_setError e (snd (Vanilla_destroy v)))) = invoked v"
    by (cases "or_undefined e")
      (simp_all add: Vanilla_setError_def Vanilla_destroy_def events_emit_def js_defs
        clear_def emit_def, simp_all add: or_undefined_def)
  from c1 c2 c3 c4 c5 c6 c7 c8 c9 c10 c11 show ?thesis by blast
qed

theorem listeners_are_notified_witness:
  "invoked (snd (Vanilla_setUser (Some alice) (snd (Vanilla_onAuthStateChanged 1
      (VanillaAuthClient_new (page None [] accepting_backend) never_throws)))))
     = [(1, [UserArg None]), (1, [UserArg (Some alice)])] \<and>
   invoked (snd (Vanilla_setLoading False (snd (Vanilla_onLoadingStateChanged 3
      (VanillaAuthClient_new (page None [] accepting_backend) never_throws)))))
     = [(3, [LoadingArg True]), (3, [LoadingArg False])] \<and>
   invoked (snd (Vanilla_setError (Some ''boom'') (snd (Vanilla_onError 2
      (VanillaAuthClient_new (page None [] accepting_backend) never_throws)))))
     = [(2, [ErrorArg ''boom''])] \<and>
   invoked (snd (Vanilla_setError None (snd (Vanilla_onError 2
      (VanillaAuthClient_new (page None [] accepting_backend) never_throws)))))
     = []"
proof -
  let ?v = "VanillaAuthClient_new (page None [] accepting_backend) never_throws"
  let ?v1 = "?v\<lparr>invoked := invoked ?v @ [(1, [UserArg (user ?v)])],
                events := on (events ?v) ''authStateChanged'' 1\<rparr>"
  let ?v2 = "?v\<lparr>events := on (events ?v) ''error'' 2\<rparr>"
  let ?v3 = "?v\<lparr>invoked := invoked ?v @ [(3, [LoadingArg (isLoading ?v)])],
                events := on (events ?v) ''loadingStateChanged'' 3\<rparr>"
  have quiet: "\<not> cb_throws ?v 1 [UserArg (user ?v)] \<and>
    \<not> cb_throws ?v 3 [LoadingArg (isLoading ?v)]"
    by (simp add: example_defs)
  have q1: "list_all (\<lambda>c. \<not> cb_throws ?v1 c [UserArg (Some alice)])
              (registered ?v1 ''authStateChanged'')"
    by (simp add: example_defs registered_def on_def)
  have q2: "or_undefined (Some ''boom'') = Some ''boom'' \<and>
    list_all (\<lambda>c. \<not> cb_throws ?v2 c [ErrorArg ''boom'']) (registered ?v2 ''error'')"
    by (simp add: example_defs registered_def on_def or_undefined_def)
  have q3: "list_all (\<lambda>c. \<not> cb_throws ?v3 c [LoadingArg False])
              (registered ?v3 ''loadingStateChanged'')"
    by (simp add: example_defs registered_def on_def)
  have q4: "or_undefined None = None"
    by (simp add: or_undefined_def)
  note a = listeners_are_notified [of ?v 1 "Some alice" False "Some ''boom''" "''boom''"]
  note a2 = listeners_are_notified [of ?v 2 "Some alice" False "Some ''boom''" "''boom''"]
  note a3 = listeners_are_notified [of ?v 3 "Some alice" False "Some ''boom''" "''boom''"]
  note b = listeners_are_notified [of ?v1 1 "Some alice" False "Some ''boom''" "''boom''"]
  note c = listeners_are_notified [of ?v2 2 "Some alice" False "Some ''boom''" "''boom''"]
  note d = listeners_are_notified [of ?v3 3 "Some alice" False "Some ''boom''" "''boom''"]
  note e = listeners_are_notified [of ?v2 2 "Some alice" False None "''boom''"]
  from a quiet have s1: "snd (Vanilla_onAuthStateChanged 1 ?v) = ?v1"
    by simp
  from a2 have s2: "snd (Vanilla_onError 2 ?v) = ?v2"
    by simp
  from a3 quiet have s3: "snd (Vanilla_onLoadingStateChanged 3 ?v) = ?v3"
    by simp
  from b q1 s1 have r1: "invoked (snd (Vanilla_setUser (Some alice)
      (snd (Vanilla_onAuthStateChanged 1 ?v))))
     = [(1, [UserArg None]), (1, [UserArg (Some alice)])]"
    by (simp add: example_defs registered_def on_def)
  from c q2 s2 have r2: "invoked (snd (Vanilla_setError (Some ''boom'')
      (snd (Vanilla_onError 2 ?v))))
     = [(2, [ErrorArg ''boom''])]"
    by (simp add: example_defs registered_def on_def)
  from d q3 s3 have r3: "invoked (snd (Vanilla_setLoading False
      (snd (Vanilla_onLoadingStateChanged 3 ?v))))
     = [(3, [LoadingArg True]), (3, [LoadingArg False])]"
    by (simp add: example_defs registered_def on_def)
  from e q4 s2 have r4: "invoked (snd (Vanilla_setError None (snd (Vanilla_onError 2 ?v)))) = []"
    by (simp add: example_defs)
  from r1 r2 r3 r4 show ?thesis by simp
qed

text \<open>
  C3 as stated fails: a vanilla client whose initialization ended with an error. A
  listener subscribed with \<open>onError\<close> is not called with that error, and it is not
  called when the error is cleared either.
\<close>

theorem onError_is_not_called_at_once_counterexample:
  "error (snd (Vanilla_initialize example_config
      (VanillaAuthClient_new (page (Some ''stale'') [] rejecting_backend) never_throws)))
     = Some ''Authentication failed. Please log in again.'' \<and>
   invoked (snd (Vanilla_onError 1 (snd (Vanilla_initialize example_config
      (VanillaAuthClient_new (page (Some ''stale'') [] rejecting_backend) never_throws)))))
     = [] \<and>
   error (snd (Vanilla_setError None (snd (Vanilla_onError 1 (snd (Vanilla_initialize
      example_config
      (VanillaAuthClient_new (page (Some ''stale'') [] rejecting_backend) never_throws)))))))
     = None \<and>
   invoked (snd (Vanilla_setError None (snd (Vanilla_onError 1 (snd (Vanilla_initialize
      example_config
      (VanillaAuthClient_new (page (Some ''stale'') [] rejecting_backend) never_throws)))))))
     = []"
  by (simp add: run_example)

section \<open>Further properties of the two flows\<close>

text \<open>
  The direct-token flow, for redirect paths and a pathname that the browser resolves
  to themselves. On a URL with a non-empty \<open>token\<close> parameter both adapters store
  the token and send exactly one verification request, which carries it. The React
  provider ends on a URL without query in either case (the login redirect path on
  success, the unauthorized redirect path on failure). The vanilla client, when its
  listeners do not throw, strips the query on success and leaves it as it was on
  failure.
\<close>

theorem direct_token_flow:
  "(or_undefined (searchParams_get s ''token'') = Some token \<and>
    resolves_to_itself s (login_path props) \<and>
    resolves_to_itself s (unauthorized_path props) \<longrightarrow>
      requests (snd (AuthProvider_mount props s)) =
        requests s @ [outgoing (s\<lparr>localStorage := Some token\<rparr>) ''/verify-token'' NoBody Map.empty] \<and>
      search (snd (AuthProvider_mount props s)) = [] \<and>
      (verify_response (server s)
         (outgoing (s\<lparr>localStorage := Some token\<rparr>) ''/verify-token'' NoBody Map.empty) = Inr u \<longrightarrow>
         localStorage (snd (AuthProvider_mount props s)) = Some token \<and>
         user (snd (AuthProvider_mount props s)) = Some u \<and>
         pathname (snd (AuthProvider_mount props s)) = login_path props) \<and>
      (verify_response (server s)
         (outgoing (s\<lparr>localStorage := Some token\<rparr>) ''/verify-token'' NoBody Map.empty) = Inl e \<longrightarrow>
         localStorage (snd (AuthProvider_mount props s)) = None \<and>
         error (snd (AuthProvider_mount props s)) =
           Some ''Authentication failed. Please try again.'' \<and>
         pathname (snd (AuthProvider_mount props s)) = unauthorized_path props)) \<and>
   (or_undefined (searchParams_get v ''token'') = Some token \<and>
    (\<forall>cb a. \<not> cb_throws v cb a) \<longrightarrow>
      requests (snd (Vanilla_initialize config v)) =
        requests v @ [outgoing (v\<lparr>localStorage := Some token\<rparr>) ''/verify-token'' NoBody Map.empty] \<and>
      (verify_response (server v)
         (outgoing (v\<lparr>localStorage := Some token\<rparr>) ''/verify-token'' NoBody Map.empty) = Inr u \<and>
       resolves_to_itself v (pathname v) \<longrightarrow>
         localStorage (snd (Vanilla_initialize config v)) = Some token \<and>
         user (snd (Vanilla_initialize config v)) = Some u \<and>
         pathname (snd (Vanilla_initialize config v)) = pathname v \<and>
         search (snd (Vanilla_initialize config v)) = []) \<and>
      (verify_response (server v)
         (outgoing (v\<lparr>localStorage := Some token\<rparr>) ''/verify-token'' NoBody Map.empty) = Inl e \<longrightarrow>
         localStorage (snd (Vanilla_initialize config v)) = None \<and>
         error (snd (Vanilla_initialize config v)) =
           Some ''Authentication failed. Please try again.'' \<and>
         search (snd (Vanilla_initialize config v)) = search v))"
proof -
  have c1: "or_undefined (searchParams_get s ''token'') = Some token \<and>
    resolves_to_itself s (login_path props) \<and>
    resolves_to_itself s (unauthorized_path props) \<longrightarrow>
      requests (snd (AuthProvider_mount props s)) =
        requests s @ [outgoing (s\<lparr>localStorage := Some token\<rparr>) ''/verify-token'' NoBody Map.empty] \<and>
      search (snd (AuthProvider_mount props s)) = [] \<and>
      (verify_response (server s)
         (outgoing (s\<lparr>localStorage := Some token\<rparr>) ''/verify-token'' NoBody Map.empty) = Inr u \<longrightarrow>
         localStorage (snd (AuthProvider_mount props s)) = Some token \<and>
         user (snd (AuthProvider_mount props s)) = Some u \<and>
         pathname (snd (AuthProvider_mount props s)) = login_path props) \<and>
      (verify_response (server s)
         (outgoing (s\<lparr>localStorage := Some token\<rparr>) ''/verify-token'' NoBody Map.empty) = Inl e \<longrightarrow>
         localStorage (snd (AuthProvider_mount props s)) = None \<and>
         error (snd (AuthProvider_mount props s)) =
           Some ''Authentication failed. Please try again.'' \<and>
         pathname (snd (AuthProvider_mount props s)) = unauthorized_path props)"
    by (auto simp: react_defs js_defs world_defs api_defs outgoing_def Let_def
        resolves_to_itself_def split: sum.splits prod.splits)
  have c2: "or_undefined (searchParams_get v ''token'') = Some token \<and>
    (\<forall>cb a. \<not> cb_throws v cb a) \<longrightarrow>
      requests (snd (Vanilla_initialize config v)) =
        requests v @ [outgoing (v\<lparr>localStorage := Some token\<rparr>) ''/verify-token'' NoBody Map.empty] \<and>
      (verify_response (server v)
         (outgoing (v\<lparr>localStorage := Some token\<rparr>) ''/verify-token'' NoBody Map.empty) = Inr u \<and>
       resolves_to_itself v (pathname v) \<longrightarrow>
         localStorage (snd (Vanilla_initialize config v)) = Some token \<and>
         user (snd (Vanilla_initialize config v)) = Some u \<and>
         pathname (snd (Vanilla_initialize config v)) = pathname v \<and>
         search (snd (Vanilla_initialize config v)) = []) \<and>
      (verify_response (server v)
         (outgoing (v\<lparr>localStorage := Some token\<rparr>) ''/verify-token'' NoBody Map.empty) = Inl e \<longrightarrow>
         localStorage (snd (Vanilla_initialize config v)) = None \<and>
         error (snd (Vanilla_initialize config v)) =
           Some ''Authentication failed. Please try again.'' \<and>
         search (snd (Vanilla_initialize config v)) = search v)"
    by (auto simp: quiet_run resolves_to_itself_def split: sum.splits prod.splits)
  from c1 c2 show ?thesis by blast
qed

theorem direct_token_flow_witness:
  "search (snd (AuthProvider_mount default_props (AuthProvider_initial
      (page None [(''token'', ''t1'')] rejecting_backend)))) = [] \<and>
   pathname (snd (AuthProvider_mount default_props (AuthProvider_initial
      (page None [(''token'', ''t1'')] rejecting_backend)))) = ''/login'' \<and>
   localStorage (snd (AuthProvider_mount default_props (AuthProvider_initial
      (page None [(''token'', ''t1'')] rejecting_backend)))) = None \<and>
   localStorage (snd (AuthProvider_mount default_props (AuthProvider_initial
      (page None [(''token'', ''t1'')] accepting_backend)))) = Some ''t1'' \<and>
   pathname (snd (AuthProvider_mount default_props (AuthProvider_initial
      (page None [(''token'', ''t1'')] accepting_backend)))) = ''/'' \<and>
   localStorage (snd (Vanilla_initialize example_config (VanillaAuthClient_new
      (page None [(''token'', ''t1'')] accepting_backend) never_throws))) = Some ''t1'' \<and>
   search (snd (Vanilla_initialize example_config (VanillaAuthClient_new
      (page None [(''token'', ''t1'')] accepting_backend) never_throws))) = [] \<and>
   localStorage (snd (Vanilla_initialize example_config (VanillaAuthClient_new
      (page None [(''token'', ''t1'')] rejecting_backend) never_throws))) = None \<and>
   search (snd (Vanilla_initialize example_config (VanillaAuthClient_new
      (page None [(''token'', ''t1'')] rejecting_backend) never_throws)))
     = [(''token'', ''t1'')]"
proof -
  let ?s = "AuthProvider_initial (page None [(''token'', ''t1'')] rejecting_backend)"
  let ?s' = "AuthProvider_initial (page None [(''token'', ''t1'')] accepting_backend)"
  let ?v = "VanillaAuthClient_new (page None [(''token'', ''t1'')] accepting_backend)
      never_throws"
  let ?v' = "VanillaAuthClient_new (page None [(''token'', ''t1'')] rejecting_backend)
      never_throws"
  have hs: "or_undefined (searchParams_get ?s ''token'') = Some ''t1'' \<and>
    resolves_to_itself ?s (login_path default_props) \<and>
    resolves_to_itself ?s (unauthorized_path default_props)"
    and hs_fail: "verify_response (server ?s)
      (outgoing (?s\<lparr>localStorage := Some ''t1''\<rparr>) ''/verify-token'' NoBody Map.empty)
      = Inl (HttpError 401)"
    by (simp_all add: example_defs world_defs or_undefined_def resolves_to_itself_def
        login_path_def unauthorized_path_def)
  have hs': "or_undefined (searchParams_get ?s' ''token'') = Some ''t1'' \<and>
    resolves_to_itself ?s' (login_path default_props) \<and>
    resolves_to_itself ?s' (unauthorized_path default_props)"
    and hs'_ok: "verify_response (server ?s')
      (outgoing (?s'\<lparr>localStorage := Some ''t1''\<rparr>) ''/verify-token'' NoBody Map.empty)
      = Inr alice"
    by (simp_all add: example_defs world_defs or_undefined_def resolves_to_itself_def
        login_path_def unauthorized_path_def)
  have hv: "or_undefined (searchParams_get ?v ''token'') = Some ''t1'' \<and>
    (\<forall>cb a. \<not> cb_throws ?v cb a)"
    and hv_ok: "verify_response (server ?v)
      (outgoing (?v\<lparr>localStorage := Some ''t1''\<rparr>) ''/verify-token'' NoBody Map.empty)
      = Inr alice \<and> resolves_to_itself ?v (pathname ?v)"
    by (simp_all add: example_defs world_defs or_undefined_def resolves_to_itself_def)
  have hv': "or_undefined (searchParams_get ?v' ''token'') = Some ''t1'' \<and>
    (\<forall>cb a. \<not> cb_throws ?v' cb a)"
    and hv'_fail: "verify_response (server ?v')
      (outgoing (?v'\<lparr>localStorage := Some ''t1''\<rparr>) ''/verify-token'' NoBody Map.empty)
      = Inl (HttpError 401)"
    by (simp_all add: example_defs world_defs or_undefined_def)
  note fail = direct_token_flow
    [of ?s "''t1''" default_props alice "HttpError 401" ?v example_config]
  note ok = direct_token_flow
    [of ?s' "''t1''" default_props alice "HttpError 401" ?v' example_config]
  from fail hs hs_fail have r1: "search (snd (AuthProvider_mount default_props ?s)) = [] \<and>
    pathname (snd (AuthProvider_mount default_props ?s)) = unauthorized_path default_props \<and>
    localStorage (snd (AuthProvider_mount default_props ?s)) = None"
    by blast
  from ok hs' hs'_ok have r2: "localStorage (snd (AuthProvider_mount default_props ?s')) = Some ''t1'' \<and>
    pathname (snd (AuthProvider_mount default_props ?s')) = login_path default_props"
    by blast
  from fail hv hv_ok have r3: "localStorage (snd (Vanilla_initialize example_config ?v)) = Some ''t1'' \<and>
    search (snd (Vanilla_initialize example_config ?v)) = []"
    by blast
  from ok hv' hv'_fail have r4: "localStorage (snd (Vanilla_initialize example_config ?v')) = None \<and>
    search (snd (Vanilla_initialize example_config ?v')) = search ?v'"
    by blast
  have before: "search ?v' = [(''token'', ''t1'')]"
    by (simp add: example_defs)
  have paths: "login_path default_props = ''/'' \<and> unauthorized_path default_props = ''/login''"
    by (simp add: login_path_def unauthorized_path_def default_props_def)
  from r1 r2 r3 r4 before paths show ?thesis by simp
qed

text \<open>
  The token store after a refused verification or exchange. In the React provider,
  whenever mounting has sent a verification or exchange request that the backend
  refused, the token store is empty when it ends; \<open>login\<close> and \<open>logout\<close> send
  requests to their own routes only.
\<close>

lemma getUserData_rejected:
  "list_ex (rejected (server s))
      (drop (length (requests s)) (requests (snd (AuthProvider_getUserData props s)))) \<Longrightarrow>
    localStorage (snd (AuthProvider_getUserData props s)) = None"
  by (auto simp: AuthProvider_getUserData_def setUser_def setIsLoading_def setError_def
      js_defs world_defs api_defs outgoing_def Let_def interceptor_endpoint rejected_def
      split: sum.splits prod.splits)

lemma snd_started_before:
  "snd (started_before m k s) = snd (k (snd (m s)))"
  by (simp add: started_before_def split: prod.splits)

lemma tokenBlock_frame:
  "requests (snd (AuthProvider_tokenBlock props token s)) = requests s \<and>
   server (snd (AuthProvider_tokenBlock props token s)) = server s"
  by (auto simp: AuthProvider_tokenBlock_def setIsLoading_def setError_def
      js_defs world_defs split: sum.splits prod.splits)

lemma directToken_runs_getUserData:
  "\<exists>s0. snd (AuthProvider_directToken props token s) = snd (AuthProvider_getUserData props s0) \<and>
     requests s0 = requests s \<and> server s0 = server s"
proof -
  let ?s0 = "snd (AuthProvider_tokenBlock props token (s\<lparr>isLoading := True, error := None\<rparr>))"
  have "snd (AuthProvider_directToken props token s) = snd (AuthProvider_getUserData props ?s0)"
    by (simp add: AuthProvider_directToken_def setIsLoading_def setError_def js_seq_def
        js_bind_def snd_started_before)
  moreover have "requests ?s0 = requests s \<and> server ?s0 = server s"
    by (simp add: tokenBlock_frame)
  ultimately show ?thesis by blast
qed

lemma directToken_rejected:
  assumes "list_ex (rejected (server s))
      (drop (length (requests s)) (requests (snd (AuthProvider_directToken props token s))))"
  shows "localStorage (snd (AuthProvider_directToken props token s)) = None"
proof -
  from directToken_runs_getUserData [of props token s]
  obtain s0 where run: "snd (AuthProvider_directToken props token s) =
      snd (AuthProvider_getUserData props s0)"
    and same: "requests s0 = requests s" "server s0 = server s"
    by blast
  from assms run same have "list_ex (rejected (server s0))
      (drop (length (requests s0)) (requests (snd (AuthProvider_getUserData props s0))))"
    by simp
  then have "localStorage (snd (AuthProvider_getUserData props s0)) = None"
    by (rule getUserData_rejected)
  with run show ?thesis by simp
qed

lemma handleCallback_rejected:
  "list_ex (rejected (server s))
      (drop (length (requests s))
        (requests (snd (AuthProvider_handleCallback props code state s)))) \<Longrightarrow>
    localStorage (snd (AuthProvider_handleCallback props code state s)) = None"
  by (auto simp: AuthProvider_handleCallback_def setUser_def setIsLoading_def setError_def
      js_defs world_defs api_defs outgoing_def Let_def interceptor_endpoint rejected_def
      split: sum.splits prod.splits)

lemma checkAuth_rejected:
  "list_ex (rejected (server s))
      (drop (length (requests s)) (requests (snd (AuthProvider_checkAuth s)))) \<Longrightarrow>
    localStorage (snd (AuthProvider_checkAuth s)) = None"
  by (auto simp: AuthProvider_checkAuth_def setUser_def setIsLoading_def setError_def
      js_defs world_defs api_defs outgoing_def Let_def interceptor_endpoint rejected_def
      split: sum.splits prod.splits option.splits)

lemma mount_is_urlEffect:
  "snd (AuthProvider_mount props s) =
     snd (AuthProvider_urlEffect props
       (s\<lparr>apiClient := Some (createApiClient \<lparr>baseUrl = authBackendUrl props\<rparr>)\<rparr>))"
  by (simp add: AuthProvider_mount_def AuthProvider_createEffect_def setApiClient_def js_defs)

lemma mount_rejected:
  assumes r: "list_ex (rejected (server s))
      (drop (length (requests s)) (requests (snd (AuthProvider_mount props s))))"
  shows "localStorage (snd (AuthProvider_mount props s)) = None"
proof -
  let ?s = "s\<lparr>apiClient := Some (createApiClient \<lparr>baseUrl = authBackendUrl props\<rparr>)\<rparr>"
  from r have r': "list_ex (rejected (server ?s))
      (drop (length (requests ?s)) (requests (snd (AuthProvider_urlEffect props ?s))))"
    by (simp add: mount_is_urlEffect)
  have "localStorage (snd (AuthProvider_urlEffect props ?s)) = None"
  proof (cases "or_undefined (searchParams_get ?s ''token'')")
    case (Some token)
    with r' directToken_rejected [of ?s props token] show ?thesis
      by (simp add: AuthProvider_urlEffect_def)
  next
    case no_token: None
    show ?thesis
    proof (cases "or_undefined (searchParams_get ?s ''code'')")
      case (Some code)
      with no_token r'
        handleCallback_rejected [of ?s props code "or_undefined (searchParams_get ?s ''state'')"]
      show ?thesis
        by (simp add: AuthProvider_urlEffect_def)
    next
      case None
      with no_token r' checkAuth_rejected [of ?s] show ?thesis
        by (simp add: AuthProvider_urlEffect_def)
    qed
  qed
  then show ?thesis by (simp add: mount_is_urlEffect)
qed

theorem react_never_keeps_rejected_token:
  "(list_ex (rejected (server s))
      (drop (length (requests s)) (requests (snd (AuthProvider_mount props s)))) \<longrightarrow>
      localStorage (snd (AuthProvider_mount props s)) = None) \<and>
   list_all (\<lambda>req. endpoint req = ''/auth/login'')
     (drop (length (requests s)) (requests (snd (AuthProvider_login s)))) \<and>
   list_all (\<lambda>req. endpoint req = ''/auth/logout'')
     (drop (length (requests s)) (requests (snd (AuthProvider_logout s))))"
proof -
  have li: "list_all (\<lambda>req. endpoint req = ''/auth/login'')
     (drop (length (requests s)) (requests (snd (AuthProvider_login s))))"
    by (auto simp: AuthProvider_login_def setIsLoading_def setError_def js_defs world_defs
        api_defs outgoing_def Let_def interceptor_endpoint split: sum.splits)
  have lo: "list_all (\<lambda>req. endpoint req = ''/auth/logout'')
     (drop (length (requests s)) (requests (snd (AuthProvider_logout s))))"
    by (auto simp: AuthProvider_logout_def setUser_def setIsLoading_def setError_def js_defs
        world_defs api_defs outgoing_def Let_def interceptor_endpoint split: sum.splits)
  from mount_rejected [of s props] li lo show ?thesis by blast
qed

theorem react_never_keeps_rejected_token_witness:
  "list_ex (rejected rejecting_backend)
     (requests (snd (AuthProvider_mount default_props (AuthProvider_initial
        (page (Some ''old'') [(''code'', ''c1'')] rejecting_backend))))) \<and>
   localStorage (snd (AuthProvider_mount default_props (AuthProvider_initial
      (page (Some ''old'') [(''code'', ''c1'')] rejecting_backend)))) = None"
proof -
  let ?s = "AuthProvider_initial (page (Some ''old'') [(''code'', ''c1'')] rejecting_backend)"
  have facts: "server ?s = rejecting_backend \<and> requests ?s = []"
    by (simp add: example_defs)
  have h: "list_ex (rejected rejecting_backend)
     (requests (snd (AuthProvider_mount default_props ?s)))"
    by (simp add: run_example rejected_def)
  from react_never_keeps_rejected_token [of ?s default_props] facts h
  show ?thesis by simp
qed

text \<open>
  The same for the vanilla client: when none of its listeners throws, a refused
  verification or exchange request of \<open>initialize\<close> leaves the token store empty;
  \<open>login\<close> and \<open>logout\<close> send requests to their own routes only, whatever the
  listeners do.
\<close>

lemma quiet_initialize_rejected:
  assumes q: "\<forall>cb a. \<not> cb_throws v cb a"
    and r: "list_ex (rejected (server v))
      (drop (length (requests v)) (requests (snd (Vanilla_initialize config v))))"
  shows "localStorage (snd (Vanilla_initialize config v)) = None"
proof (cases "or_undefined (searchParams_get v ''token'')")
  case (Some token)
  with q r show ?thesis
    by (auto simp: quiet_run rejected_def split: sum.splits)
next
  case no_token: None
  show ?thesis
  proof (cases "or_undefined (searchParams_get v ''code'')")
    case (Some code)
    with no_token q r show ?thesis
      by (auto simp: quiet_run rejected_def split: sum.splits)
  next
    case no_code: None
    show ?thesis
    proof (cases "or_undefined (localStorage v)")
      case None
      with no_code no_token q r show ?thesis
        by (auto simp: quiet_run rejected_def split: sum.splits)
    next
      case (Some stored)
      with no_code no_token q r show ?thesis
        by (auto simp: quiet_run rejected_def split: sum.splits)
    qed
  qed
qed

lemma vanilla_login_requests:
  "list_all (\<lambda>req. endpoint req = ''/auth/login'')
     (drop (length (requests v)) (requests (snd (Vanilla_login v))))"
  by (simp add: vanilla_defs js_defs world_defs api_defs outgoing_def Let_def
      or_undefined_simps interceptor_endpoint split: prod.splits sum.splits)

lemma vanilla_logout_requests:
  "list_all (\<lambda>req. endpoint req = ''/auth/logout'')
     (drop (length (requests v)) (requests (snd (Vanilla_logout v))))"
  by (simp add: vanilla_defs js_defs world_defs api_defs outgoing_def Let_def
      or_undefined_simps interceptor_endpoint split: prod.splits sum.splits)

theorem vanilla_quiet_never_keeps_rejected_token:
  "((\<forall>cb a. \<not> cb_throws v cb a) \<and> list_ex (rejected (server v))
      (drop (length (requests v)) (requests (snd (Vanilla_initialize config v)))) \<longrightarrow>
      localStorage (snd (Vanilla_initialize config v)) = None) \<and>
   list_all (\<lambda>req. endpoint req = ''/auth/login'')
     (drop (length (requests v)) (requests (snd (Vanilla_login v)))) \<and>
   list_all (\<lambda>req. endpoint req = ''/auth/logout'')
     (drop (length (requests v)) (requests (snd (Vanilla_logout v))))"
  using quiet_initialize_rejected [of v config] vanilla_login_requests [of v]
    vanilla_logout_requests [of v]
  by blast

theorem vanilla_quiet_never_keeps_rejected_token_witness:
  "list_ex (rejected rejecting_backend)
     (requests (snd (Vanilla_initialize example_config (VanillaAuthClient_new
        (page None [(''token'', ''stale'')] rejecting_backend) never_throws)))) \<and>
   localStorage (snd (Vanilla_initialize example_config (VanillaAuthClient_new
      (page None [(''token'', ''stale'')] rejecting_backend) never_throws))) = None"
proof -
  let ?v = "VanillaAuthClient_new (page None [(''token'', ''stale'')] rejecting_backend)
      never_throws"
  have facts: "server ?v = rejecting_backend \<and> requests ?v = [] \<and>
    (\<forall>cb a. \<not> cb_throws ?v cb a)"
    by (simp add: example_defs)
  have h: "list_ex (rejected rejecting_backend)
     (requests (snd (Vanilla_initialize example_config ?v)))"
    by (simp add: run_example rejected_def)
  from vanilla_quiet_never_keeps_rejected_token [of ?v example_config] facts h
  show ?thesis by simp
qed

end
